theory Spec2Isabelle
  imports Complex_Main "HOL-Library.Char_ord" "HOL-Library.List_Lexorder"
begin

section \<open>Quality scorer (run\_pipeline.py, calculate\_quality\_score)\<close>

text \<open>
  The scorer reads four report dictionaries with \<^verbatim>\<open>dict.get(key, default)\<close>.  Each
  dictionary is modelled by the keys that the scorer and the cleaning stage read; an
  absent key is \<open>None\<close> and is replaced by the default the source passes to \<^verbatim>\<open>get\<close>.  A dictionary whose values the
  scorer iterates or counts is an association list in insertion order.  Percentages are
  Python numbers and are modelled as rationals; the score itself only ever has integers
  subtracted from the integer 100 and is an \<open>int\<close>.
\<close>

type_synonym ('k, 'v) dict = "('k \<times> 'v) list"

definition get_default :: "'a option \<Rightarrow> 'a \<Rightarrow> 'a" where
  "get_default v d = (case v of None \<Rightarrow> d | Some x \<Rightarrow> x)"

record col_missing =
  cm_percentage :: "rat option"

record missing_report =
  mr_details :: "(string, col_missing) dict option"

record duplicate_view =
  dv_duplicate_count :: "int option"
  dv_duplicate_percent :: "rat option"
  dv_severity :: "string option"

record outlier_view =
  ov_numeric_columns :: "string list option"
  ov_total_outliers :: "int option"

text \<open>
  The inconsistency report as the scorer receives it: the six dictionaries of findings
  that the inconsistency analyzer returns, each keyed by column.
\<close>

record 'v inconsistency_view =
  iv_strip_issues :: "(string, 'v) dict option"
  iv_case_issues :: "(string, 'v) dict option"
  iv_special_char_issues :: "(string, 'v) dict option"
  iv_mixed_alphanumeric :: "(string, 'v) dict option"
  iv_rare_categories :: "(string, 'v) dict option"
  iv_inconsistent_formats :: "(string, 'v) dict option"

record score_breakdown =
  missing_data_impact :: int
  duplicate_impact :: int
  outlier_impact :: int
  inconsistency_impact :: int

record quality_score =
  score :: int
  grade :: string
  breakdown :: score_breakdown

text \<open>The loop over \<^verbatim>\<open>missing_report.get("details", {}).values()\<close>, lines 153-160.\<close>

fun missing_penalty_loop :: "int \<Rightarrow> col_missing list \<Rightarrow> int" where
  "missing_penalty_loop missing_penalty [] = missing_penalty"
| "missing_penalty_loop missing_penalty (col_data # rest) =
     (let pct = get_default (cm_percentage col_data) 0 in
      missing_penalty_loop
        (if pct > 20 then missing_penalty + 10
         else if pct > 5 then missing_penalty + 5
         else if pct > 0 then missing_penalty + 2
         else missing_penalty) rest)"

definition inconsistency_issues :: "'v inconsistency_view \<Rightarrow> nat" where
  "inconsistency_issues ir =
     length (get_default (iv_strip_issues ir) []) +
     length (get_default (iv_case_issues ir) []) +
     length (get_default (iv_special_char_issues ir) [])"

definition grade_of :: "int \<Rightarrow> string" where
  "grade_of s =
     (if s \<ge> 90 then ''Excellent''
      else if s \<ge> 75 then ''Good''
      else if s \<ge> 60 then ''Fair''
      else if s \<ge> 40 then ''Poor''
      else ''Critical'')"

definition calculate_quality_score ::
  "missing_report \<Rightarrow> duplicate_view \<Rightarrow> outlier_view \<Rightarrow> 'v inconsistency_view \<Rightarrow> quality_score"
where
  "calculate_quality_score missing_rep duplicate_rep outlier_rep inconsistency_rep =
     (let score0 = 100;
          missing_penalty =
            missing_penalty_loop 0 (map snd (get_default (mr_details missing_rep) []));
          score1 = score0 - min missing_penalty 30;
          dup_pct = get_default (dv_duplicate_percent duplicate_rep) 0;
          score2 = (if dup_pct > 5 then score1 - 15
                    else if dup_pct > 1 then score1 - 8
                    else if dup_pct > 0 then score1 - 3
                    else score1);
          total_outl = get_default (ov_total_outliers outlier_rep) 0;
          score3 = (if total_outl > 100 then score2 - 10
                    else if total_outl > 50 then score2 - 5
                    else score2);
          issues = inconsistency_issues inconsistency_rep;
          score4 = (if issues > 5 then score3 - 15
                    else if issues > 2 then score3 - 8
                    else if issues > 0 then score3 - 4
                    else score3);
          score5 = max score4 0
      in \<lparr> score = score5,
           grade = grade_of score5,
           breakdown = \<lparr>
             missing_data_impact = min missing_penalty 30,
             duplicate_impact =
               (if dup_pct > 5 then 15 else (if dup_pct > 1 then 8 else (if dup_pct > 0 then 3 else 0))),
             outlier_impact = (if total_outl > 100 then 10 else (if total_outl > 50 then 5 else 0)),
             inconsistency_impact =
               (if issues > 5 then 15 else (if issues > 2 then 8 else (if issues > 0 then 4 else 0)))
           \<rparr> \<rparr>)"

subsection \<open>The scoring rule as the specification words it\<close>

text \<open>
  Section 4.10 of the specification: start at 100; a missing-data penalty per affected
  column, capped at 30; one duplicate tier; one outlier tier; one inconsistency tier
  counted from strip, case and special-character issue columns; floor at 0; grade bands.
\<close>

definition spec_missing_tier :: "rat \<Rightarrow> int" where
  "spec_missing_tier pct = (if pct > 20 then 10 else if pct > 5 then 5 else if pct > 0 then 2 else 0)"

definition spec_missing_penalty :: "rat list \<Rightarrow> int" where
  "spec_missing_penalty pcts = min (sum_list (map spec_missing_tier pcts)) 30"

definition spec_duplicate_penalty :: "rat \<Rightarrow> int" where
  "spec_duplicate_penalty pct = (if pct > 5 then 15 else if pct > 1 then 8 else if pct > 0 then 3 else 0)"

definition spec_outlier_penalty :: "int \<Rightarrow> int" where
  "spec_outlier_penalty n = (if n > 100 then 10 else if n > 50 then 5 else 0)"

definition spec_inconsistency_penalty :: "nat \<Rightarrow> int" where
  "spec_inconsistency_penalty k = (if k > 5 then 15 else if k > 2 then 8 else if k > 0 then 4 else 0)"

text \<open>
  The inconsistency-issue count of the specification: the number of columns with a
  strip issue, plus the number with a case issue, plus the number with a
  special-character issue, and nothing else of the report.  A dictionary the report
  does not have lists no column.
\<close>

definition listed_columns :: "(string, 'v) dict option \<Rightarrow> nat" where
  "listed_columns d = (case d of None \<Rightarrow> 0 | Some entries \<Rightarrow> length (map fst entries))"

definition spec_issue_columns :: "'v inconsistency_view \<Rightarrow> nat" where
  "spec_issue_columns ir =
     sum_list (map listed_columns [iv_strip_issues ir, iv_case_issues ir, iv_special_char_issues ir])"

definition spec_score :: "rat list \<Rightarrow> rat \<Rightarrow> int \<Rightarrow> nat \<Rightarrow> int" where
  "spec_score pcts dup_pct outl k =
     max 0 (100 - (spec_missing_penalty pcts + spec_duplicate_penalty dup_pct +
                   spec_outlier_penalty outl + spec_inconsistency_penalty k))"

definition spec_grade :: "int \<Rightarrow> string" where
  "spec_grade s =
     (if 90 \<le> s then ''Excellent'' else if 75 \<le> s then ''Good''
      else if 60 \<le> s then ''Fair'' else if 40 \<le> s then ''Poor'' else ''Critical'')"

text \<open>What the scorer reads from its four arguments.\<close>

definition missing_pcts :: "missing_report \<Rightarrow> rat list" where
  "missing_pcts mr = map (\<lambda>kv. get_default (cm_percentage (snd kv)) 0) (get_default (mr_details mr) [])"

definition dup_pct_of :: "duplicate_view \<Rightarrow> rat" where
  "dup_pct_of dr = get_default (dv_duplicate_percent dr) 0"

definition total_outliers_of :: "outlier_view \<Rightarrow> int" where
  "total_outliers_of orp = get_default (ov_total_outliers orp) 0"

text \<open>
  The percentage the scorer sees for a column name: the entry of the details dictionary,
  and 0 for a column that has no entry (the missing-value analyzer only records columns
  with at least one missing cell).
\<close>

definition col_pct :: "missing_report \<Rightarrow> string \<Rightarrow> rat" where
  "col_pct mr c =
     (case map_of (get_default (mr_details mr) []) c of
        None \<Rightarrow> 0
      | Some col_data \<Rightarrow> get_default (cm_percentage col_data) 0)"

definition dict_keys_distinct :: "missing_report \<Rightarrow> bool" where
  "dict_keys_distinct mr = distinct (map fst (get_default (mr_details mr) []))"


section \<open>Tabular datasets\<close>

text \<open>
  A pandas \<^verbatim>\<open>DataFrame\<close> is modelled row-major: the column labels with their dtypes, and
  the rows as lists of cells.  The row index is not modelled: every function of the
  repository returns a frame whose rows are addressed by position, and the cleaning
  stage ends with \<^verbatim>\<open>reset_index(drop=True)\<close>.

  Scope of the model.  Column labels are strings and pairwise distinct (what
  \<^verbatim>\<open>read_csv\<close> produces).  A number cell holds an exact rational.  The rounding of
  IEEE floats is not modelled anywhere; their infinities and NaN arithmetic are modelled
  in the drift analyzer, which reads a number cell as a float64 value, and nowhere else.
  The missing marker (NaN, None, NaT, pd.NA) is the single cell \<open>NA\<close>.  A character is
  a code point below 256.
\<close>

datatype cell = NA | Num rat | Str string | Bool bool | Stamp int

datatype dtype =
  D_int64 | D_float64 | D_Int64 | D_Float64 | D_object | D_category | D_datetime64 | D_bool
  | D_boolean

record frame =
  columns :: "(string \<times> dtype) list"
  rows :: "cell list list"

datatype error = IndexingError | KeyError | TypeError | ValueError

definition cell_fits :: "dtype \<Rightarrow> cell \<Rightarrow> bool" where
  "cell_fits t c =
     (case (t, c) of
        (D_int64, Num r) \<Rightarrow> r = of_int \<lfloor>r\<rfloor>
      | (D_Int64, Num r) \<Rightarrow> r = of_int \<lfloor>r\<rfloor>
      | (D_Int64, NA) \<Rightarrow> True
      | (D_float64, Num r) \<Rightarrow> True
      | (D_float64, NA) \<Rightarrow> True
      | (D_Float64, Num r) \<Rightarrow> True
      | (D_Float64, NA) \<Rightarrow> True
      | (D_object, Str s) \<Rightarrow> True
      | (D_object, NA) \<Rightarrow> True
      | (D_category, Str s) \<Rightarrow> True
      | (D_category, NA) \<Rightarrow> True
      | (D_datetime64, Stamp n) \<Rightarrow> True
      | (D_datetime64, NA) \<Rightarrow> True
      | (D_bool, Bool b) \<Rightarrow> True
      | (D_boolean, Bool b) \<Rightarrow> True
      | (D_boolean, NA) \<Rightarrow> True
      | _ \<Rightarrow> False)"

text \<open>
  A well-formed frame: distinct labels, every row as wide as the header, every cell of
  the kind its column's dtype holds (text columns hold text or the missing marker).
\<close>

definition wf_frame :: "frame \<Rightarrow> bool" where
  "wf_frame df =
     (distinct (map fst (columns df)) \<and>
      list_all (\<lambda>r. length r = length (columns df) \<and>
                     list_all2 cell_fits (map snd (columns df)) r) (rows df))"

definition cell_at :: "cell list \<Rightarrow> nat \<Rightarrow> cell" where
  "cell_at r i = (if i < length r then r ! i else NA)"

fun index_of :: "string \<Rightarrow> string list \<Rightarrow> nat option" where
  "index_of c [] = None"
| "index_of c (x # xs) = (if x = c then Some 0 else map_option Suc (index_of c xs))"

definition col_values :: "frame \<Rightarrow> nat \<Rightarrow> cell list" where
  "col_values df i = map (\<lambda>r. cell_at r i) (rows df)"

definition isna :: "cell \<Rightarrow> bool" where
  "isna c = (c = NA)"

definition count_true :: "bool list \<Rightarrow> nat" where
  "count_true bs = length (filter (\<lambda>b. b) bs)"

subsection \<open>Python strings\<close>

definition code_point :: "char \<Rightarrow> nat" where
  "code_point c = of_char c"

text \<open>\<^verbatim>\<open>str.isspace\<close> and the regular expression class \<^verbatim>\<open>\s\<close>, for code points below 256.\<close>

definition is_space :: "char \<Rightarrow> bool" where
  "is_space c =
     (let n = code_point c in (9 \<le> n \<and> n \<le> 13) \<or> (28 \<le> n \<and> n \<le> 32) \<or> n = 133 \<or> n = 160)"

definition is_ascii_upper :: "char \<Rightarrow> bool" where
  "is_ascii_upper c = (let n = code_point c in 65 \<le> n \<and> n \<le> 90)"

definition is_ascii_lower :: "char \<Rightarrow> bool" where
  "is_ascii_lower c = (let n = code_point c in 97 \<le> n \<and> n \<le> 122)"

definition is_ascii_letter :: "char \<Rightarrow> bool" where
  "is_ascii_letter c = (is_ascii_upper c \<or> is_ascii_lower c)"

text \<open>\<^verbatim>\<open>\d\<close>: below code point 256 the only decimal digits are 0 to 9.\<close>

definition is_digit :: "char \<Rightarrow> bool" where
  "is_digit c = (let n = code_point c in 48 \<le> n \<and> n \<le> 57)"

text \<open>
  \<^verbatim>\<open>str.lower\<close> on one code point below 256: the ASCII capitals and the Latin-1 capitals
  (192 to 222 except the multiplication sign 215) move up by 32.
\<close>

definition lower_char :: "char \<Rightarrow> char" where
  "lower_char c =
     (let n = code_point c in
      if (65 \<le> n \<and> n \<le> 90) \<or> (192 \<le> n \<and> n \<le> 222 \<and> n \<noteq> 215) then char_of (n + 32) else c)"

definition lower :: "string \<Rightarrow> string" where
  "lower s = map lower_char s"

text \<open>\<^verbatim>\<open>str.strip()\<close>: whitespace removed at both ends.\<close>

definition strip :: "string \<Rightarrow> string" where
  "strip s = rev (dropWhile is_space (rev (dropWhile is_space s)))"

text \<open>\<^verbatim>\<open>needle in hay\<close> for strings.\<close>

fun starts_with :: "string \<Rightarrow> string \<Rightarrow> bool" where
  "starts_with hay [] = True"
| "starts_with [] (n # ns) = False"
| "starts_with (h # hs) (n # ns) = (h = n \<and> starts_with hs ns)"

fun py_in :: "string \<Rightarrow> string \<Rightarrow> bool" where
  "py_in needle [] = (needle = [])"
| "py_in needle (h # hs) = (starts_with (h # hs) needle \<or> py_in needle hs)"

subsection \<open>Duplicated rows\<close>

text \<open>
  \<^verbatim>\<open>DataFrame.duplicated(subset, keep)\<close>.  With \<^verbatim>\<open>keep='first'\<close> a row is marked when an
  equal row stands before it; with \<^verbatim>\<open>keep=False\<close> when an equal row stands anywhere else.
  Missing cells compare equal to each other.  pandas returns an empty Series for a
  frame that is \<^verbatim>\<open>empty\<close> (no column or no row).
\<close>

datatype keep = KeepFirst | KeepFalse

fun duplicated_first :: "'a list \<Rightarrow> 'a list \<Rightarrow> bool list" where
  "duplicated_first seen [] = []"
| "duplicated_first seen (r # rs) = (r \<in> set seen) # duplicated_first (r # seen) rs"

definition duplicated_all :: "'a list \<Rightarrow> bool list" where
  "duplicated_all rs = map (\<lambda>r. 1 < count_list rs r) rs"

definition frame_empty :: "frame \<Rightarrow> bool" where
  "frame_empty df = (columns df = [] \<or> rows df = [])"

definition subset_keys :: "frame \<Rightarrow> string list \<Rightarrow> cell list list" where
  "subset_keys df subs =
     map (\<lambda>r. map (cell_at r)
                (List.map_filter (\<lambda>c. index_of c (map fst (columns df))) subs)) (rows df)"

definition duplicated :: "frame \<Rightarrow> string list option \<Rightarrow> keep \<Rightarrow> bool list" where
  "duplicated df subs k =
     (if frame_empty df then []
      else let keys = (case subs of None \<Rightarrow> rows df | Some cs \<Rightarrow> subset_keys df cs)
           in case k of KeepFirst \<Rightarrow> duplicated_first [] keys | KeepFalse \<Rightarrow> duplicated_all keys)"

text \<open>
  \<^verbatim>\<open>df[mask]\<close> with a boolean Series: the rows whose mark is set.  A mask whose index
  does not match the frame's raises IndexingError; here that is the empty mask of a
  frame with rows and no column.
\<close>

definition getitem_mask :: "frame \<Rightarrow> bool list \<Rightarrow> error + frame" where
  "getitem_mask df marks =
     (if length marks = length (rows df)
      then Inr (df\<lparr>rows := map snd (filter fst (zip marks (rows df)))\<rparr>)
      else Inl IndexingError)"

text \<open>\<^verbatim>\<open>drop_duplicates()\<close>: the rows not marked by \<^verbatim>\<open>duplicated()\<close>; an empty frame is copied.\<close>

definition drop_duplicates :: "frame \<Rightarrow> frame" where
  "drop_duplicates df =
     (if frame_empty df then df
      else df\<lparr>rows := map snd (filter (\<lambda>(d, r). \<not> d) (zip (duplicated df None KeepFirst) (rows df)))\<rparr>)"

text \<open>The exact full-row duplicate count of a frame, \<^verbatim>\<open>df.duplicated().sum()\<close>.\<close>

definition duplicate_count_of :: "frame \<Rightarrow> nat" where
  "duplicate_count_of df = count_true (duplicated df None KeepFirst)"


section \<open>Duplicate analyzer (duplicates.py)\<close>

text \<open>
  The report dictionary of \<^verbatim>\<open>analyze_duplicates\<close>.  The empty dictionary
  \<^verbatim>\<open>subset_duplicates = {}\<close> is \<open>None\<close>.  The key \<^verbatim>\<open>duplicate_groups\<close> (the five largest
  groups with sample indices) is left out: its order depends on how pandas sorts ties,
  and on rows addressed by position its computation (lines 25-37) does not raise.
  Python's \<^verbatim>\<open>round(x, 2)\<close> is taken on the exact rational, halves to even; the code
  rounds the float64 nearest to it, so on a decimal tie such as 14.375 the last digit can
  differ.  No statement below depends on a rounded value at a tie.
\<close>

record subset_info =
  columns_checked :: "string list"
  subset_duplicate_count :: int
  subset_note :: string

record duplicate_report =
  duplicate_count :: int
  duplicate_percent :: rat
  total_rows :: int
  unique_rows :: int
  dup_severity :: string
  subset_duplicates :: "subset_info option"
  dup_suggestions :: "string list"

definition round_half_even :: "rat \<Rightarrow> int" where
  "round_half_even x =
     (let f = \<lfloor>x\<rfloor>; d = x - of_int f in
      if d < 1/2 then f else if d > 1/2 then f + 1 else if even f then f else f + 1)"

definition round2 :: "rat \<Rightarrow> rat" where
  "round2 x = of_int (round_half_even (x * 100)) / 100"

definition get_severity :: "rat \<Rightarrow> string" where
  "get_severity pct =
     (if pct = 0 then ''None''
      else if pct < 1 then ''Low''
      else if pct < 5 then ''Medium''
      else ''High'')"

definition important_cols_of :: "frame \<Rightarrow> string list" where
  "important_cols_of df =
     filter (\<lambda>col. \<not> py_in ''id'' (lower col) \<and> \<not> py_in ''index'' (lower col))
       (map fst (columns df))"

definition analyze_duplicates :: "frame \<Rightarrow> error + duplicate_report" where
  "analyze_duplicates df =
     (let total = int (length (rows df));
          dup_count = int (count_true (duplicated df None KeepFirst));
          dup_percent = (if total > 0 then (of_int dup_count / of_int total) * 100 else 0)
      in case getitem_mask df (duplicated df None KeepFalse) of
           Inl e \<Rightarrow> Inl e
         | Inr duplicate_rows \<Rightarrow>
             (let important_cols = important_cols_of df;
                  subset_dups =
                    (if length important_cols > 0
                     then (let subset_dup_count =
                                 int (count_true (duplicated df (Some important_cols) KeepFalse))
                           in if subset_dup_count > dup_count
                              then Some \<lparr> columns_checked = important_cols,
                                          subset_duplicate_count = subset_dup_count,
                                          subset_note = ''More duplicates found when ignoring ID columns'' \<rparr>
                              else None)
                     else None);
                  sev = get_severity dup_percent;
                  suggestions0 =
                    (if dup_count = 0
                     then [''No duplicate rows detected. Dataset is clean.'']
                     else if dup_percent < 1
                     then [''Very few duplicates. Safe to remove using drop_duplicates()'']
                     else if dup_percent < 5
                     then [''Moderate duplicates found. Review if data represents transactions or events.'']
                     else [''High duplicate rate detected. Investigate data collection process.'',
                           ''Check if duplicates are legitimate (e.g., repeated measurements) or errors.'']);
                  suggestions1 =
                    (if subset_dups \<noteq> None
                     then suggestions0 @
                          [''Found more duplicates when ignoring ID columns. Consider subset-based deduplication.'']
                     else suggestions0)
              in Inr \<lparr> duplicate_count = dup_count,
                       duplicate_percent = round2 dup_percent,
                       total_rows = total,
                       unique_rows = total - dup_count,
                       dup_severity = sev,
                       subset_duplicates = subset_dups,
                       dup_suggestions = suggestions1 \<rparr>))"


section \<open>Cleaning stage (cleaning.py)\<close>

subsection \<open>Library routines\<close>

text \<open>
  Routines of pandas, scipy and the Python runtime that the repository calls and that
  are neither rational arithmetic nor list processing are parameters of the model:
  \<^item> \<open>str_number\<close>, \<open>str_timestamp\<close>: Python's \<^verbatim>\<open>str()\<close> of a number and of a timestamp
    (used when \<^verbatim>\<open>astype(str)\<close> meets such a cell in a text column);
  \<^item> \<open>to_datetime\<close>: \<^verbatim>\<open>pandas.to_datetime(column, errors='coerce')\<close>, the new cells of the
    column, or \<open>None\<close> when it raises;
  \<^item> \<open>ks_tail\<close>: the probability \<^verbatim>\<open>scipy.stats.ks_2samp\<close> computes for two samples of the
    given sizes and a positive Kolmogorov-Smirnov statistic.
\<close>

record pylib =
  str_number :: "rat \<Rightarrow> string"
  str_timestamp :: "int \<Rightarrow> string"
  to_datetime :: "dtype \<Rightarrow> cell list \<Rightarrow> cell list option"
  ks_tail :: "nat \<Rightarrow> nat \<Rightarrow> rat \<Rightarrow> rat"

text \<open>
  \<^verbatim>\<open>astype(str)\<close> on one cell: the missing marker becomes the text \<^verbatim>\<open>nan\<close>.  (The model
  has one missing marker; a Python \<^verbatim>\<open>None\<close> in a text column would print as \<^verbatim>\<open>None\<close>.)
\<close>

definition py_str :: "pylib \<Rightarrow> cell \<Rightarrow> string" where
  "py_str L c =
     (case c of
        NA \<Rightarrow> ''nan''
      | Str s \<Rightarrow> s
      | Bool b \<Rightarrow> (if b then ''True'' else ''False'')
      | Num r \<Rightarrow> str_number L r
      | Stamp n \<Rightarrow> str_timestamp L n)"

subsection \<open>Column access and assignment\<close>

definition is_numeric_dtype :: "dtype \<Rightarrow> bool" where
  "is_numeric_dtype t = (t = D_int64 \<or> t = D_float64 \<or> t = D_Int64 \<or> t = D_Float64)"

definition is_nullable_dtype :: "dtype \<Rightarrow> bool" where
  "is_nullable_dtype t = (t = D_Int64 \<or> t = D_Float64 \<or> t = D_boolean)"

definition numbers :: "cell list \<Rightarrow> rat list" where
  "numbers cs = List.map_filter (\<lambda>c. case c of Num r \<Rightarrow> Some r | _ \<Rightarrow> None) cs"

definition is_integral :: "rat \<Rightarrow> bool" where
  "is_integral r = (r = of_int \<lfloor>r\<rfloor>)"

text \<open>\<^verbatim>\<open>df[col] = values\<close> for the column at position \<open>i\<close>, which also takes the dtype \<open>t\<close>.\<close>

definition set_column :: "frame \<Rightarrow> nat \<Rightarrow> dtype \<Rightarrow> cell list \<Rightarrow> frame" where
  "set_column df i t vals =
     df\<lparr> columns := (columns df)[i := (fst (columns df ! i), t)],
         rows := map (\<lambda>(r, v). r[i := v]) (zip (rows df) vals) \<rparr>"

text \<open>\<^verbatim>\<open>df[name] = values\<close>: an existing column is overwritten in place, a new one is appended.\<close>

definition assign_column :: "frame \<Rightarrow> string \<Rightarrow> dtype \<Rightarrow> cell list \<Rightarrow> frame" where
  "assign_column df name t vals =
     (case index_of name (map fst (columns df)) of
        Some i \<Rightarrow> set_column df i t vals
      | None \<Rightarrow> df\<lparr> columns := columns df @ [(name, t)],
                     rows := map (\<lambda>(r, v). r @ [v]) (zip (rows df) vals) \<rparr>)"

subsection \<open>handle\_duplicates\<close>

text \<open>
  \<^verbatim>\<open>df["_is_duplicate"] = df.duplicated()\<close>.  The assignment aligns the marks with the
  rows.  For a frame with rows and no column the marks are an empty Series, and every
  row receives a missing value.
\<close>

definition flag_duplicates :: "frame \<Rightarrow> frame" where
  "flag_duplicates df =
     (let marks = duplicated df None KeepFirst in
      if length marks = length (rows df)
      then assign_column df ''_is_duplicate'' D_bool (map Bool marks)
      else assign_column df ''_is_duplicate'' D_object (map (\<lambda>r. NA) (rows df)))"

text \<open>
  The argument \<open>duplicate_report\<close> is \<open>None\<close> when it is not a dictionary; the key
  \<^verbatim>\<open>duplicate_count\<close> may be absent from a dictionary.
\<close>

definition handle_duplicates :: "frame \<Rightarrow> duplicate_view option \<Rightarrow> string \<Rightarrow> frame" where
  "handle_duplicates df duplicate_rep strategy =
     (case duplicate_rep of
        None \<Rightarrow> flag_duplicates df
      | Some rep \<Rightarrow>
          if dv_duplicate_count rep = None then flag_duplicates df
          else let sev = get_default (dv_severity rep) ''Low'' in
               if strategy = ''keep'' then df
               else if strategy = ''flag'' then flag_duplicates df
               else if strategy = ''remove'' then drop_duplicates df
               else if strategy = ''auto''
               then (if sev = ''High'' \<or> sev = ''Medium'' then drop_duplicates df
                     else flag_duplicates df)
               else df)"

subsection \<open>impute\_missing\_values\<close>

text \<open>Statistics skip missing cells; on no value at all they are NaN, here \<open>None\<close>.\<close>

definition median :: "rat list \<Rightarrow> rat option" where
  "median xs =
     (if xs = [] then None
      else let s = sort xs; n = length s in
           Some (if odd n then s ! (n div 2) else (s ! (n div 2 - 1) + s ! (n div 2)) / 2))"

definition mean :: "rat list \<Rightarrow> rat option" where
  "mean xs = (if xs = [] then None else Some (sum_list xs / of_nat (length xs)))"

text \<open>
  \<^verbatim>\<open>fillna(value)\<close> on a numeric column.  Filling with NaN changes nothing.  A nullable
  integer column refuses a value that is not a whole number (TypeError, \<open>None\<close>).
\<close>

definition fillna_cell :: "cell \<Rightarrow> cell \<Rightarrow> cell" where
  "fillna_cell v c = (if c = NA then v else c)"

definition fillna_number :: "dtype \<Rightarrow> rat option \<Rightarrow> cell list \<Rightarrow> (dtype \<times> cell list) option" where
  "fillna_number t fill_value cs =
     (case fill_value of
        None \<Rightarrow> Some (t, cs)
      | Some v \<Rightarrow>
          if t = D_Int64 \<and> \<not> is_integral v then None
          else Some (t, map (fillna_cell (Num v)) cs))"

text \<open>\<^verbatim>\<open>fillna(method='ffill')\<close> and \<^verbatim>\<open>fillna(method='bfill')\<close>.\<close>

fun ffill_from :: "cell \<Rightarrow> cell list \<Rightarrow> cell list" where
  "ffill_from prev [] = []"
| "ffill_from prev (c # cs) = (if c = NA then prev # ffill_from prev cs else c # ffill_from c cs)"

definition ffill :: "cell list \<Rightarrow> cell list" where
  "ffill cs = ffill_from NA cs"

definition bfill :: "cell list \<Rightarrow> cell list" where
  "bfill cs = rev (ffill_from NA (rev cs))"

text \<open>
  \<^verbatim>\<open>Series.mode(dropna=True)\<close>: the most frequent values, in ascending order when they
  can be compared with each other (all text, all numbers, ...), otherwise in order of
  first appearance.
\<close>

definition unique :: "'a list \<Rightarrow> 'a list" where
  "unique xs = rev (remdups (rev xs))"

definition same_kind :: "cell \<Rightarrow> cell \<Rightarrow> bool" where
  "same_kind a b =
     (case (a, b) of
        (Num x, Num y) \<Rightarrow> True
      | (Str x, Str y) \<Rightarrow> True
      | (Bool x, Bool y) \<Rightarrow> True
      | (Stamp x, Stamp y) \<Rightarrow> True
      | (NA, NA) \<Rightarrow> True
      | _ \<Rightarrow> False)"

definition cell_le :: "cell \<Rightarrow> cell \<Rightarrow> bool" where
  "cell_le a b =
     (case (a, b) of
        (Num x, Num y) \<Rightarrow> x \<le> y
      | (Str x, Str y) \<Rightarrow> x \<le> y
      | (Bool x, Bool y) \<Rightarrow> x \<le> y
      | (Stamp x, Stamp y) \<Rightarrow> x \<le> y
      | _ \<Rightarrow> True)"

fun insert_cell :: "cell \<Rightarrow> cell list \<Rightarrow> cell list" where
  "insert_cell x [] = [x]"
| "insert_cell x (y # ys) = (if cell_le x y then x # y # ys else y # insert_cell x ys)"

definition sort_cells :: "cell list \<Rightarrow> cell list" where
  "sort_cells cs = foldr insert_cell cs []"

definition mode :: "cell list \<Rightarrow> cell list" where
  "mode cs =
     (let vals = filter (\<lambda>c. c \<noteq> NA) cs;
          top = fold max (map (count_list vals) vals) 0;
          modes = filter (\<lambda>v. count_list vals v = top) (unique vals)
      in case modes of
           [] \<Rightarrow> []
         | m # ms \<Rightarrow> if list_all (same_kind m) ms then sort_cells modes else modes)"

text \<open>
  \<^verbatim>\<open>fillna(value)\<close> on the remaining dtypes.  A categorical column refuses a value that is
  not one of its categories, a nullable boolean column a value that is not a boolean.
\<close>

definition fillna_value :: "dtype \<Rightarrow> cell \<Rightarrow> cell list \<Rightarrow> (dtype \<times> cell list) option" where
  "fillna_value t v cs =
     (if t = D_category \<and> v \<notin> set cs then None
      else if t = D_boolean \<and> \<not> same_kind v (Bool True) then None
      else Some (t, map (fillna_cell v) cs))"

text \<open>
  The body of the \<^verbatim>\<open>try\<close> block for one column, lines 43-65: the new dtype and cells,
  or \<open>None\<close> when the block raises (the \<^verbatim>\<open>except\<close> clause then leaves the column as it
  is).
\<close>

definition impute_column :: "string \<Rightarrow> dtype \<Rightarrow> cell list \<Rightarrow> (dtype \<times> cell list) option" where
  "impute_column strategy t cs =
     (if is_numeric_dtype t
      then (let fill_value =
                  (if strategy = ''median'' then median (numbers cs)
                   else if strategy = ''mean'' then mean (numbers cs)
                   else if strategy = ''zero'' then Some 0
                   else median (numbers cs))
            in fillna_number t fill_value cs)
      else if t = D_datetime64
      then Some (t, bfill (ffill cs))
      else (let mode_values = mode cs;
                fill_value = (case mode_values of m # ms \<Rightarrow> m | [] \<Rightarrow> Str ''Unknown'')
            in fillna_value t fill_value cs))"

fun impute_loop :: "string \<Rightarrow> frame \<Rightarrow> nat list \<Rightarrow> frame" where
  "impute_loop strategy cleaned [] = cleaned"
| "impute_loop strategy cleaned (i # cols) =
     (if count_true (map isna (col_values cleaned i)) = 0
      then impute_loop strategy cleaned cols
      else case impute_column strategy (snd (columns cleaned ! i)) (col_values cleaned i) of
             Some (t, vals) \<Rightarrow> impute_loop strategy (set_column cleaned i t vals) cols
           | None \<Rightarrow> impute_loop strategy cleaned cols)"

definition impute_missing_values :: "frame \<Rightarrow> string \<Rightarrow> frame" where
  "impute_missing_values df strategy = impute_loop strategy df [0..<length (columns df)]"


subsection \<open>fix\_data\_types\<close>

record dtype_view =
  tv_possible_date_columns :: "string list option"
  tv_float_int_candidates :: "string list option"

text \<open>
  \<^verbatim>\<open>astype('Int64')\<close>: numbers must all be whole (otherwise TypeError), booleans become
  0 and 1, a text column is accepted only if it holds nothing but whole numbers and
  missing cells, timestamps and categories are refused.  Two cases that pandas decides
  otherwise are not modelled: a text column of digit strings, which pandas converts, and
  a whole number beyond the 64-bit range, which pandas refuses.
\<close>

definition bool_to_number :: "cell \<Rightarrow> cell" where
  "bool_to_number c = (case c of Bool b \<Rightarrow> Num (if b then 1 else 0) | _ \<Rightarrow> c)"

definition astype_Int64 :: "dtype \<Rightarrow> cell list \<Rightarrow> (dtype \<times> cell list) option" where
  "astype_Int64 t cs =
     (if is_numeric_dtype t
      then (if list_all is_integral (numbers cs) then Some (D_Int64, cs) else None)
      else if t = D_bool \<or> t = D_boolean
      then Some (D_Int64, map bool_to_number cs)
      else if t = D_object
      then (if list_all (\<lambda>c. case c of NA \<Rightarrow> True | Num r \<Rightarrow> is_integral r | _ \<Rightarrow> False) cs
            then Some (D_Int64, cs) else None)
      else None)"

definition as_datetime :: "pylib \<Rightarrow> dtype \<Rightarrow> cell list \<Rightarrow> (dtype \<times> cell list) option" where
  "as_datetime L t cs = map_option (\<lambda>vals. (D_datetime64, vals)) (to_datetime L t cs)"

text \<open>
  The two loops of lines 81-94: for every listed column that the frame has, convert it,
  and leave it alone when the conversion raises.
\<close>

fun convert_loop ::
  "(dtype \<Rightarrow> cell list \<Rightarrow> (dtype \<times> cell list) option) \<Rightarrow> frame \<Rightarrow> string list \<Rightarrow> frame"
where
  "convert_loop conv cleaned [] = cleaned"
| "convert_loop conv cleaned (col # cols) =
     (case index_of col (map fst (columns cleaned)) of
        None \<Rightarrow> convert_loop conv cleaned cols
      | Some i \<Rightarrow>
          (case conv (snd (columns cleaned ! i)) (col_values cleaned i) of
             Some (t, vals) \<Rightarrow> convert_loop conv (set_column cleaned i t vals) cols
           | None \<Rightarrow> convert_loop conv cleaned cols))"

definition fix_data_types :: "pylib \<Rightarrow> frame \<Rightarrow> dtype_view option \<Rightarrow> frame" where
  "fix_data_types L df dtype_rep =
     (case dtype_rep of
        None \<Rightarrow> df
      | Some rep \<Rightarrow>
          (let date_cols = get_default (tv_possible_date_columns rep) [];
               cleaned = convert_loop (as_datetime L) df date_cols;
               float_int_cols = get_default (tv_float_int_candidates rep) []
           in convert_loop astype_Int64 cleaned float_int_cols))"

subsection \<open>normalize\_text\_columns\<close>

text \<open>\<^verbatim>\<open>re.sub(r'\s+', ' ', x)\<close>: every maximal run of whitespace becomes one space.\<close>

fun collapse_from :: "bool \<Rightarrow> string \<Rightarrow> string" where
  "collapse_from in_run [] = []"
| "collapse_from in_run (c # cs) =
     (if is_space c
      then (if in_run then collapse_from True cs else CHR '' '' # collapse_from True cs)
      else c # collapse_from False cs)"

definition collapse_whitespace :: "string \<Rightarrow> string" where
  "collapse_whitespace s = collapse_from False s"

text \<open>\<^verbatim>\<open>re.sub(r'[^a-zA-Z0-9\s]', '', x)\<close>.\<close>

definition strip_special :: "string \<Rightarrow> string" where
  "strip_special s = filter (\<lambda>c. is_ascii_letter c \<or> is_digit c \<or> is_space c) s"

definition normalize_cell :: "pylib \<Rightarrow> bool \<Rightarrow> cell \<Rightarrow> cell" where
  "normalize_cell L aggressive c =
     (let s = strip (py_str L c) in
      Str (if aggressive then strip_special (lower s) else collapse_whitespace s))"

fun normalize_loop :: "pylib \<Rightarrow> bool \<Rightarrow> frame \<Rightarrow> nat list \<Rightarrow> frame" where
  "normalize_loop L aggressive cleaned [] = cleaned"
| "normalize_loop L aggressive cleaned (i # cols) =
     normalize_loop L aggressive
       (set_column cleaned i D_object (map (normalize_cell L aggressive) (col_values cleaned i)))
       cols"

definition normalize_text_columns :: "pylib \<Rightarrow> frame \<Rightarrow> bool \<Rightarrow> frame" where
  "normalize_text_columns L df aggressive =
     (let text_cols = filter (\<lambda>i. snd (columns df ! i) = D_object) [0..<length (columns df)]
      in normalize_loop L aggressive df text_cols)"

subsection \<open>handle\_outliers\<close>

text \<open>
  \<^verbatim>\<open>Series.quantile(q)\<close> with linear interpolation between the two nearest order
  statistics; missing cells are skipped, and the quantile of no value is NaN (\<open>None\<close>).
  The model follows pandas on the numeric dtypes, the only ones the outlier analyzer
  lists; on a column of any other dtype the model takes the exception path, as pandas
  does for text.  (pandas does compute quantiles and fences of a datetime64 column; the
  model does not follow it there, and the fences are exact where the code's are floats.)
\<close>

definition quantile :: "rat list \<Rightarrow> rat \<Rightarrow> rat option" where
  "quantile xs q =
     (if xs = [] then None
      else let s = sort xs;
               pos = of_nat (length s - 1) * q;
               lo = nat \<lfloor>pos\<rfloor>;
               frac = pos - of_int \<lfloor>pos\<rfloor>
           in Some (if lo + 1 < length s then s ! lo + (s ! (lo + 1) - s ! lo) * frac else s ! lo))"

text \<open>The bounds \<open>Q1 - 1.5 * IQR\<close> and \<open>Q3 + 1.5 * IQR\<close> of lines 138-143.\<close>

definition iqr_bounds :: "dtype \<Rightarrow> cell list \<Rightarrow> (rat \<times> rat) option option" where
  "iqr_bounds t cs =
     (if \<not> is_numeric_dtype t then None
      else Some (case (quantile (numbers cs) (1/4), quantile (numbers cs) (3/4)) of
                   (Some Q1, Some Q3) \<Rightarrow>
                     (let IQR = Q3 - Q1 in Some (Q1 - (3/2) * IQR, Q3 + (3/2) * IQR))
                 | _ \<Rightarrow> None))"

text \<open>
  \<^verbatim>\<open>clip(lower, upper)\<close>: NaN bounds clip nothing.  An integer column that receives a
  bound that is not a whole number becomes float64; a nullable integer column refuses it.
\<close>

definition clip_cell :: "rat \<Rightarrow> rat \<Rightarrow> cell \<Rightarrow> cell" where
  "clip_cell lo hi c = (case c of Num r \<Rightarrow> Num (min (max r lo) hi) | _ \<Rightarrow> c)"

definition clip_column :: "dtype \<Rightarrow> (rat \<times> rat) option \<Rightarrow> cell list \<Rightarrow> (dtype \<times> cell list) option" where
  "clip_column t bounds cs =
     (case bounds of
        None \<Rightarrow> Some (t, cs)
      | Some (lo, hi) \<Rightarrow>
          (let vals = map (clip_cell lo hi) cs;
               whole = list_all is_integral (numbers vals)
           in if t = D_Int64 \<and> \<not> whole then None
              else Some (if t = D_int64 \<and> \<not> whole then D_float64 else t, vals)))"

definition outside_cell :: "dtype \<Rightarrow> (rat \<times> rat) option \<Rightarrow> cell \<Rightarrow> cell" where
  "outside_cell t bounds c =
     (case (bounds, c) of
        (Some (lo, hi), Num r) \<Rightarrow> Bool (r < lo \<or> r > hi)
      | _ \<Rightarrow> if is_nullable_dtype t \<and> c = NA then NA else Bool False)"

definition inside_cell :: "(rat \<times> rat) option \<Rightarrow> cell \<Rightarrow> bool" where
  "inside_cell bounds c =
     (case (bounds, c) of
        (Some (lo, hi), Num r) \<Rightarrow> r \<ge> lo \<and> r \<le> hi
      | _ \<Rightarrow> False)"

text \<open>
  One round of the loop of lines 132-172 for a column the frame has: the frame after
  the \<^verbatim>\<open>try\<close> block, or \<open>None\<close> when the block raises.
\<close>

definition outlier_step :: "string \<Rightarrow> frame \<Rightarrow> string \<Rightarrow> nat \<Rightarrow> frame option" where
  "outlier_step method cleaned col i =
     (let t = snd (columns cleaned ! i); cs = col_values cleaned i in
      if method = ''clip''
      then (case iqr_bounds t cs of
              None \<Rightarrow> None
            | Some bounds \<Rightarrow>
                (case clip_column t bounds cs of
                   None \<Rightarrow> None
                 | Some (t', vals) \<Rightarrow> Some (set_column cleaned i t' vals)))
      else if method = ''flag''
      then (case iqr_bounds t cs of
              None \<Rightarrow> None
            | Some bounds \<Rightarrow>
                Some (assign_column cleaned (col @ ''_is_outlier'')
                        (if is_nullable_dtype t then D_boolean else D_bool)
                        (map (outside_cell t bounds) cs)))
      else if method = ''remove''
      then (case iqr_bounds t cs of
              None \<Rightarrow> None
            | Some bounds \<Rightarrow>
                Some (cleaned\<lparr> rows := filter (\<lambda>r. inside_cell bounds (cell_at r i)) (rows cleaned) \<rparr>))
      else Some cleaned)"

fun outlier_loop :: "string \<Rightarrow> frame \<Rightarrow> string list \<Rightarrow> frame" where
  "outlier_loop method cleaned [] = cleaned"
| "outlier_loop method cleaned (col # cols) =
     (case index_of col (map fst (columns cleaned)) of
        None \<Rightarrow> outlier_loop method cleaned cols
      | Some i \<Rightarrow>
          (case outlier_step method cleaned col i of
             Some cleaned' \<Rightarrow> outlier_loop method cleaned' cols
           | None \<Rightarrow> outlier_loop method cleaned cols))"

definition handle_outliers :: "frame \<Rightarrow> outlier_view option \<Rightarrow> string \<Rightarrow> frame" where
  "handle_outliers df outlier_rep method =
     (case outlier_rep of
        None \<Rightarrow> df
      | Some rep \<Rightarrow> outlier_loop method df (get_default (ov_numeric_columns rep) []))"

subsection \<open>remove\_constant\_columns and clean\_dataset\<close>

definition nunique :: "cell list \<Rightarrow> nat" where
  "nunique cs = length (remdups (filter (\<lambda>c. c \<noteq> NA) cs))"

definition drop_positions :: "nat list \<Rightarrow> 'a list \<Rightarrow> 'a list" where
  "drop_positions ps xs = map snd (filter (\<lambda>(i, x). i \<notin> set ps) (enumerate 0 xs))"

definition remove_constant_columns :: "frame \<Rightarrow> frame" where
  "remove_constant_columns df =
     (let cols_to_drop = filter (\<lambda>i. nunique (col_values df i) = 1) [0..<length (columns df)]
      in if cols_to_drop \<noteq> []
         then df\<lparr> columns := drop_positions cols_to_drop (columns df),
                  rows := map (drop_positions cols_to_drop) (rows df) \<rparr>
         else df)"

text \<open>
  \<^verbatim>\<open>clean_dataset\<close>, lines 191-228.  A report argument is \<open>None\<close> when it is \<^verbatim>\<open>None\<close>, an
  empty dictionary or no dictionary; \<open>inconsistency_rep\<close> is accepted and never read.
\<close>

definition clean_dataset ::
  "pylib \<Rightarrow> frame \<Rightarrow> dtype_view option \<Rightarrow> 'i option \<Rightarrow> outlier_view option \<Rightarrow>
   duplicate_view option \<Rightarrow> string \<Rightarrow> string \<Rightarrow> string \<Rightarrow> bool \<Rightarrow> bool \<Rightarrow> frame"
where
  "clean_dataset L df dtype_rep inconsistency_rep outlier_rep duplicate_rep
       duplicate_strategy missing_strategy outlier_method normalize_text remove_constants =
     (let cleaned1 = impute_missing_values df missing_strategy;
          cleaned2 = handle_duplicates cleaned1 duplicate_rep duplicate_strategy;
          cleaned3 = (if dtype_rep \<noteq> None then fix_data_types L cleaned2 dtype_rep else cleaned2);
          cleaned4 = (if normalize_text then normalize_text_columns L cleaned3 False else cleaned3);
          cleaned5 = (if outlier_rep \<noteq> None then handle_outliers cleaned4 outlier_rep outlier_method
                      else cleaned4);
          cleaned6 = (if remove_constants then remove_constant_columns cleaned5 else cleaned5)
      in cleaned6)"


section \<open>Inconsistency analyzer (inconsistencies.py)\<close>

text \<open>
  The report of \<^verbatim>\<open>analyze_inconsistencies\<close>.  When the frame has no text column the
  summary is a sentence and the key \<^verbatim>\<open>inconsistent_formats\<close> is absent.  Two values are
  left out of the per-column entries: the examples of rare categories (their order
  depends on how pandas sorts ties) and the rounded standard deviation of the lengths
  (a square root).  Decimal constants such as 0.9 and 0.5 are exact rationals.
\<close>

record count_info =
  ci_count :: int
  ci_percentage :: rat
  ci_examples :: "string list"

record case_info =
  unique_original :: int
  unique_normalized :: int
  potential_duplicates :: int

record mixed_info =
  mi_count :: int
  mi_percentage :: rat

record rare_info =
  rare_count :: int
  total_unique :: int
  percentage_rare :: rat

record format_info =
  min_length :: int
  max_length :: int
  mean_length :: rat

record summary_info =
  total_categorical_columns :: int
  columns_with_issues :: int
  severity :: string

datatype summary = SummaryText string | Summary summary_info

record inconsistency_report =
  summary :: summary
  strip_issues :: "(string, count_info) dict"
  case_issues :: "(string, case_info) dict"
  special_char_issues :: "(string, count_info) dict"
  mixed_alphanumeric :: "(string, mixed_info) dict"
  rare_categories :: "(string, rare_info) dict"
  inconsistent_formats :: "(string, format_info) dict option"
  suggestions :: "(string, string list) dict"

text \<open>\<^verbatim>\<open>df[col].dropna().astype(str)\<close>.\<close>

definition col_series :: "pylib \<Rightarrow> frame \<Rightarrow> nat \<Rightarrow> string list" where
  "col_series L df i = map (py_str L) (filter (\<lambda>c. c \<noteq> NA) (col_values df i))"

definition percentage_of :: "nat \<Rightarrow> nat \<Rightarrow> rat" where
  "percentage_of k n = round2 ((of_nat k / of_nat n) * 100)"

definition strip_finding :: "string list \<Rightarrow> count_info option" where
  "strip_finding ss =
     (let changed = filter (\<lambda>s. s \<noteq> strip s) ss;
          strip_count = length changed
      in if strip_count > 0
         then Some \<lparr> ci_count = int strip_count,
                     ci_percentage = percentage_of strip_count (length ss),
                     ci_examples = take 3 changed \<rparr>
         else None)"

definition case_finding :: "string list \<Rightarrow> case_info option" where
  "case_finding ss =
     (let uniq_original = length (remdups ss);
          uniq_lower = length (remdups (map lower ss))
      in if uniq_lower < uniq_original
         then Some \<lparr> unique_original = int uniq_original,
                     unique_normalized = int uniq_lower,
                     potential_duplicates = int uniq_original - int uniq_lower \<rparr>
         else None)"

text \<open>\<^verbatim>\<open>str.contains\<close> for the three patterns \<^verbatim>\<open>[^a-zA-Z0-9\s]\<close>, \<^verbatim>\<open>[A-Za-z]\<close> and \<^verbatim>\<open>\d\<close>.\<close>

definition has_special :: "string \<Rightarrow> bool" where
  "has_special s = list_ex (\<lambda>c. \<not> (is_ascii_letter c \<or> is_digit c \<or> is_space c)) s"

definition has_letters :: "string \<Rightarrow> bool" where
  "has_letters s = list_ex is_ascii_letter s"

definition has_digits :: "string \<Rightarrow> bool" where
  "has_digits s = list_ex is_digit s"

definition special_finding :: "string list \<Rightarrow> count_info option" where
  "special_finding ss =
     (let special = filter has_special ss;
          special_count = length special
      in if special_count > 0
         then Some \<lparr> ci_count = int special_count,
                     ci_percentage = percentage_of special_count (length ss),
                     ci_examples = take 3 special \<rparr>
         else None)"

definition mixed_finding :: "string list \<Rightarrow> mixed_info option" where
  "mixed_finding ss =
     (let mixed_count = length (filter (\<lambda>s. has_letters s \<and> has_digits s) ss)
      in if mixed_count > 0 \<and> (of_nat mixed_count :: rat) < of_nat (length ss) * (9/10)
         then Some \<lparr> mi_count = int mixed_count,
                     mi_percentage = percentage_of mixed_count (length ss) \<rparr>
         else None)"

text \<open>\<^verbatim>\<open>value_counts()\<close>: the number of occurrences of every distinct value.\<close>

definition value_counts :: "string list \<Rightarrow> (string \<times> nat) list" where
  "value_counts ss = map (\<lambda>v. (v, count_list ss v)) (unique ss)"

definition rare_finding :: "string list \<Rightarrow> rare_info option" where
  "rare_finding ss =
     (let counts = value_counts ss;
          rare = filter (\<lambda>(v, k). k < 5) counts
      in if length rare > 0 \<and> (of_nat (length rare) :: rat) < of_nat (length counts) * (1/2)
         then Some \<lparr> rare_count = int (length rare),
                     total_unique = int (length counts),
                     percentage_rare = percentage_of (length rare) (length counts) \<rparr>
         else None)"

text \<open>
  \<^verbatim>\<open>lengths.std() > lengths.mean() * 0.5\<close>.  The sample standard deviation (divisor
  \<open>n - 1\<close>) of fewer than two values is NaN and every comparison with it is false.  Both
  sides are non-negative, so the comparison is decided on the squares.
\<close>

definition variance :: "rat list \<Rightarrow> rat" where
  "variance xs =
     (let m = sum_list xs / of_nat (length xs)
      in sum_list (map (\<lambda>x. (x - m) * (x - m)) xs) / of_nat (length xs - 1))"

definition std_greater :: "rat list \<Rightarrow> rat \<Rightarrow> bool" where
  "std_greater xs b = (length xs \<ge> 2 \<and> (b < 0 \<or> variance xs > b * b))"

definition format_finding :: "string list \<Rightarrow> format_info option" where
  "format_finding ss =
     (let lengths = map (\<lambda>s. of_nat (length s) :: rat) ss;
          mean_len = sum_list lengths / of_nat (length lengths)
      in if std_greater lengths (mean_len * (1/2)) \<and> length (value_counts ss) > 10
         then Some \<lparr> min_length = int (fold min (map length ss) (length (hd ss))),
                     max_length = int (fold max (map length ss) 0),
                     mean_length = round2 mean_len \<rparr>
         else None)"

text \<open>
  The loop of lines 29-94 fills six dictionaries, each with the columns (in frame
  order) that show the finding; a column with no value left after \<^verbatim>\<open>dropna\<close> is skipped.
\<close>

definition findings ::
  "pylib \<Rightarrow> frame \<Rightarrow> nat list \<Rightarrow> (string list \<Rightarrow> 'a option) \<Rightarrow> (string, 'a) dict" where
  "findings L df cols finding =
     List.map_filter
       (\<lambda>i. let ss = col_series L df i in
             if length ss = 0 then None
             else map_option (\<lambda>info. (fst (columns df ! i), info)) (finding ss))
       cols"

text \<open>\<^verbatim>\<open>suggestions[col] = suggestions.get(col, []); suggestions[col].append(text)\<close>.\<close>

fun append_suggestion :: "(string, string list) dict \<Rightarrow> string \<Rightarrow> string \<Rightarrow> (string, string list) dict" where
  "append_suggestion [] col msg = [(col, [msg])]"
| "append_suggestion ((k, msgs) # rest) col msg =
     (if k = col then (k, msgs @ [msg]) # rest else (k, msgs) # append_suggestion rest col msg)"

definition suggest_all ::
  "string \<Rightarrow> (string, 'a) dict \<Rightarrow> (string, string list) dict \<Rightarrow> (string, string list) dict" where
  "suggest_all msg issues sugg = fold (\<lambda>kv acc. append_suggestion acc (fst kv) msg) issues sugg"

text \<open>\<^verbatim>\<open>select_dtypes(include=['object', 'category'])\<close>, as column positions.\<close>

definition categorical_positions :: "frame \<Rightarrow> nat list" where
  "categorical_positions df =
     filter (\<lambda>i. snd (columns df ! i) = D_object \<or> snd (columns df ! i) = D_category)
       [0..<length (columns df)]"

definition analyze_inconsistencies :: "pylib \<Rightarrow> frame \<Rightarrow> inconsistency_report" where
  "analyze_inconsistencies L df =
     (let categorical_cols = categorical_positions df
      in if length categorical_cols = 0
         then \<lparr> summary = SummaryText ''No categorical columns found'',
                 strip_issues = [], case_issues = [], special_char_issues = [],
                 mixed_alphanumeric = [], rare_categories = [],
                 inconsistent_formats = None, suggestions = [] \<rparr>
         else
           (let strip_is = findings L df categorical_cols strip_finding;
                case_is = findings L df categorical_cols case_finding;
                special_is = findings L df categorical_cols special_finding;
                mixed_is = findings L df categorical_cols mixed_finding;
                rare_is = findings L df categorical_cols rare_finding;
                formats = findings L df categorical_cols format_finding;
                sugg =
                  suggest_all ''Inconsistent value lengths detected. Standardize format if possible'' formats
                   (suggest_all ''Group rare categories into 'Other' or investigate data quality'' rare_is
                    (suggest_all ''Mixed alphanumeric values detected. Validate format consistency'' mixed_is
                     (suggest_all ''Review special characters. Remove if not needed for business logic'' special_is
                      (suggest_all ''Normalize text case to lowercase or title case'' case_is
                       (suggest_all ''Remove leading/trailing whitespace with str.strip()'' strip_is [])))));
                total_issues =
                  length strip_is + length case_is + length special_is + length mixed_is +
                  length rare_is;
                sev = (if total_issues = 0 then ''None''
                       else if total_issues \<le> 2 then ''Low''
                       else if total_issues \<le> 5 then ''Medium''
                       else ''High'')
            in \<lparr> summary = Summary \<lparr> total_categorical_columns = int (length categorical_cols),
                                      columns_with_issues = int total_issues,
                                      severity = sev \<rparr>,
                 strip_issues = strip_is, case_issues = case_is,
                 special_char_issues = special_is, mixed_alphanumeric = mixed_is,
                 rare_categories = rare_is, inconsistent_formats = Some formats,
                 suggestions = sugg \<rparr>))"

text \<open>The sum of line 122: five of the six dictionaries of findings.\<close>

definition issue_total :: "inconsistency_report \<Rightarrow> nat" where
  "issue_total r = length (strip_issues r) + length (case_issues r) +
     length (special_char_issues r) + length (mixed_alphanumeric r) + length (rare_categories r)"


section \<open>Drift analyzer (drift.py), numeric columns\<close>

subsection \<open>float64 values\<close>



















subsection \<open>The statistics of scipy\<close>





subsection \<open>analyze\_drift\<close>












subsection \<open>Concrete scorer inputs\<close>

definition dup_pct_view :: "rat \<Rightarrow> duplicate_view" where
  "dup_pct_view p = \<lparr> dv_duplicate_count = None, dv_duplicate_percent = Some p, dv_severity = None \<rparr>"

definition outlier_total_view :: "int \<Rightarrow> outlier_view" where
  "outlier_total_view n = \<lparr> ov_numeric_columns = None, ov_total_outliers = Some n \<rparr>"

definition mr_low :: missing_report where
  "mr_low = \<lparr> mr_details = Some [(''age'', \<lparr> cm_percentage = Some 3 \<rparr>)] \<rparr>"

definition mr_high :: missing_report where
  "mr_high = \<lparr> mr_details = Some [(''city'', \<lparr> cm_percentage = Some 8 \<rparr>),
                                    (''age'', \<lparr> cm_percentage = Some 25 \<rparr>)] \<rparr>"

definition ir_clean :: "unit inconsistency_view" where
  "ir_clean = \<lparr> iv_strip_issues = Some [], iv_case_issues = Some [], iv_special_char_issues = None,
                iv_mixed_alphanumeric = Some [], iv_rare_categories = Some [],
                iv_inconsistent_formats = None \<rparr>"

definition ir_one :: "unit inconsistency_view" where
  "ir_one = \<lparr> iv_strip_issues = Some [(''city'', ())], iv_case_issues = Some [],
              iv_special_char_issues = None,
              iv_mixed_alphanumeric = Some [], iv_rare_categories = Some [],
              iv_inconsistent_formats = None \<rparr>"

definition mr_worst :: missing_report where
  "mr_worst = \<lparr> mr_details = Some [(''a'', \<lparr> cm_percentage = Some 50 \<rparr>),
                                     (''b'', \<lparr> cm_percentage = Some 40 \<rparr>),
                                     (''c'', \<lparr> cm_percentage = Some 30 \<rparr>)] \<rparr>"

definition ir_worst :: "unit inconsistency_view" where
  "ir_worst = \<lparr> iv_strip_issues = Some [(''a'', ()), (''b'', ())],
               iv_case_issues = Some [(''a'', ()), (''b'', ())],
               iv_special_char_issues = Some [(''a'', ()), (''b'', ())],
               iv_mixed_alphanumeric = Some [(''c'', ())], iv_rare_categories = Some [],
               iv_inconsistent_formats = Some [(''a'', ())] \<rparr>"

text \<open>
  A report with two strip-issue columns, one case-issue column, no special-character
  dictionary, and findings of the three other kinds on four more columns.
\<close>

definition ir_mixed :: "unit inconsistency_view" where
  "ir_mixed = \<lparr> iv_strip_issues = Some [(''name'', ()), (''city'', ())],
                iv_case_issues = Some [(''city'', ())],
                iv_special_char_issues = None,
                iv_mixed_alphanumeric = Some [(''code'', ()), (''zip'', ())],
                iv_rare_categories = Some [(''tier'', ())],
                iv_inconsistent_formats = Some [(''note'', ())] \<rparr>"


subsection \<open>Concrete frames for the duplicate analyzer\<close>

definition dup_pair :: frame where
  "dup_pair = \<lparr> columns = [(''a'', D_int64)], rows = [[Num 1], [Num 1]] \<rparr>"

definition orders :: frame where
  "orders = \<lparr> columns = [(''order_id'', D_int64), (''city'', D_object)],
              rows = [[Num 1, Str ''Pune''], [Num 2, Str ''Pune''], [Num 2, Str ''Pune''],
                      [Num 3, Str ''Delhi'']] \<rparr>"


subsection \<open>Concrete inputs for the cleaning stage\<close>

text \<open>
  A library instance for the concrete runs below.  Their frames hold no number or
  timestamp in a text column, no column is converted to dates and no frame is compared
  with a different one, so none of its routines is ever applied.
\<close>

definition lib0 :: pylib where
  "lib0 = \<lparr> str_number = (\<lambda>r. ''''), str_timestamp = (\<lambda>n. ''''),
            to_datetime = (\<lambda>t cs. None), ks_tail = (\<lambda>n m d. 0) \<rparr>"

definition cities :: frame where
  "cities = \<lparr> columns = [(''city'', D_object)], rows = [[Str ''Pune''], [Str ''Pune '']] \<rparr>"

definition cities_report :: duplicate_view where
  "cities_report = \<lparr> dv_duplicate_count = Some 0, dv_duplicate_percent = Some 0,
                     dv_severity = Some ''None'' \<rparr>"

definition ones :: frame where
  "ones = \<lparr> columns = [(''x'', D_int64)], rows = [[Num 1], [Num 1], [Num 1]] \<rparr>"

definition readings :: frame where
  "readings = \<lparr> columns = [(''temp'', D_float64), (''site'', D_object)],
                rows = [[Num 10, Str ''a''], [Num 11, Str ''a''], [Num 12, Str ''b''],
                        [Num 13, NA], [NA, Str ''b''], [Num 500, Str ''a''],
                        [Num 11, Str ''a'']] \<rparr>"

definition readings_outliers :: outlier_view where
  "readings_outliers = \<lparr> ov_numeric_columns = Some [''temp''], ov_total_outliers = Some 1 \<rparr>"

definition readings_duplicates :: duplicate_view where
  "readings_duplicates = \<lparr> dv_duplicate_count = Some 1, dv_duplicate_percent = Some (100 / 7),
                           dv_severity = Some ''High'' \<rparr>"


subsection \<open>A concrete frame for the inconsistency analyzer\<close>

definition groceries :: frame where
  "groceries = \<lparr> columns = [(''item'', D_object)],
                 rows = [[Str ''tea''], [Str ''rice''], [Str ''salt''], [Str ''oil''],
                         [Str ''soap''], [Str ''milk''], [Str ''eggs''], [Str ''jam''],
                         [Str ''nuts''], [Str ''figs''],
                         [Str ''extravirginoliveoilcoldpressedorganic'']] \<rparr>"


subsection \<open>Concrete frames for the drift analyzer\<close>





section \<open>Properties of the quality scorer\<close>

lemma missing_penalty_loop_sum:
  "missing_penalty_loop acc cs =
     acc + sum_list (map (\<lambda>c. spec_missing_tier (get_default (cm_percentage c) 0)) cs)"
  by (induction cs arbitrary: acc) (simp_all add: Let_def spec_missing_tier_def)

lemma missing_penalty_eq:
  "missing_penalty_loop 0 (map snd (get_default (mr_details mr) [])) =
     sum_list (map spec_missing_tier (missing_pcts mr))"
  by (simp add: missing_penalty_loop_sum missing_pcts_def comp_def)

lemma grade_of_spec: "grade_of s = spec_grade s"
  by (simp add: grade_of_def spec_grade_def)

lemma grade_eq_spec:
  "grade (calculate_quality_score mr dr orp ir) =
     spec_grade (score (calculate_quality_score mr dr orp ir))"
  unfolding calculate_quality_score_def Let_def
  by (simp only: quality_score.select_convs grade_of_spec)

lemma if_sub_last: "(if c then s - z else s) = s - (if c then z else (0::int))"
  by simp

lemma if_sub_step: "(if c then s - y else s - w) = s - (if c then y else (w::int))"
  by simp

lemma score_unfolded:
  "score (calculate_quality_score mr dr orp ir) =
     max (100 - spec_missing_penalty (missing_pcts mr) - spec_duplicate_penalty (dup_pct_of dr)
            - spec_outlier_penalty (total_outliers_of orp)
            - spec_inconsistency_penalty (inconsistency_issues ir)) 0"
  unfolding calculate_quality_score_def Let_def missing_penalty_eq if_sub_last if_sub_step
    spec_missing_penalty_def spec_duplicate_penalty_def spec_outlier_penalty_def
    spec_inconsistency_penalty_def dup_pct_of_def total_outliers_of_def
  by (simp only: quality_score.select_convs)

lemma score_eq_spec:
  "score (calculate_quality_score mr dr orp ir) =
     spec_score (missing_pcts mr) (dup_pct_of dr) (total_outliers_of orp) (inconsistency_issues ir)"
  unfolding score_unfolded spec_score_def by linarith

lemma spec_missing_tier_mono: "p \<le> q \<Longrightarrow> spec_missing_tier p \<le> spec_missing_tier q"
  by (simp add: spec_missing_tier_def)

lemma spec_missing_tier_nonneg: "0 \<le> spec_missing_tier p"
  by (simp add: spec_missing_tier_def)

lemma spec_missing_tier_zero: "spec_missing_tier 0 = 0"
  by (simp add: spec_missing_tier_def)

lemma dict_sum_by_key:
  assumes "distinct (map fst ds)"
  shows "sum_list (map (\<lambda>kv. f (snd kv)) ds) = (\<Sum>c\<in>set (map fst ds). f (the (map_of ds c)))"
  using assms
proof (induction ds)
  case Nil
  then show ?case by simp
next
  case (Cons kv ds)
  obtain k v where kv: "kv = (k, v)" by (cases kv)
  from Cons.prems kv have notin: "k \<notin> set (map fst ds)" and dist: "distinct (map fst ds)"
    by simp_all
  have same: "(\<Sum>c\<in>set (map fst ds). f (the (map_of (kv # ds) c))) =
              (\<Sum>c\<in>set (map fst ds). f (the (map_of ds c)))"
    by (rule sum.cong) (use notin kv in auto)
  have "(\<Sum>c\<in>set (map fst (kv # ds)). f (the (map_of (kv # ds) c))) =
        f v + (\<Sum>c\<in>set (map fst ds). f (the (map_of (kv # ds) c)))"
    using notin kv by simp
  with same Cons.IH [OF dist] kv show ?case by simp
qed

lemma missing_sum_by_column:
  assumes "dict_keys_distinct mr" and "finite K" and "set (map fst (get_default (mr_details mr) [])) \<subseteq> K"
  shows "sum_list (map spec_missing_tier (missing_pcts mr)) = (\<Sum>c\<in>K. spec_missing_tier (col_pct mr c))"
proof -
  let ?ds = "get_default (mr_details mr) []"
  let ?f = "\<lambda>cd. spec_missing_tier (get_default (cm_percentage cd) 0)"
  have d: "distinct (map fst ?ds)" using assms(1) by (simp add: dict_keys_distinct_def)
  have "sum_list (map spec_missing_tier (missing_pcts mr)) = sum_list (map (\<lambda>kv. ?f (snd kv)) ?ds)"
    by (simp add: missing_pcts_def comp_def)
  also have "\<dots> = (\<Sum>c\<in>set (map fst ?ds). ?f (the (map_of ?ds c)))"
    by (rule dict_sum_by_key [OF d])
  also have "\<dots> = (\<Sum>c\<in>set (map fst ?ds). spec_missing_tier (col_pct mr c))"
  proof (rule sum.cong)
    fix c assume "c \<in> set (map fst ?ds)"
    then obtain cd where "map_of ?ds c = Some cd"
      by (metis map_of_eq_None_iff not_Some_eq set_map)
    then show "?f (the (map_of ?ds c)) = spec_missing_tier (col_pct mr c)"
      by (simp add: col_pct_def)
  qed simp
  also have "\<dots> = (\<Sum>c\<in>K. spec_missing_tier (col_pct mr c))"
  proof (rule sum.mono_neutral_left)
    show "\<forall>c\<in>K - set (map fst ?ds). spec_missing_tier (col_pct mr c) = 0"
    proof
      fix c assume "c \<in> K - set (map fst ?ds)"
      then have "map_of ?ds c = None" by (simp add: map_of_eq_None_iff)
      then show "spec_missing_tier (col_pct mr c) = 0"
        by (simp add: col_pct_def spec_missing_tier_zero)
    qed
  qed (use assms in auto)
  finally show ?thesis .
qed

lemma spec_missing_penalty_mono:
  assumes "dict_keys_distinct mr" "dict_keys_distinct mr'" "\<forall>c. col_pct mr c \<le> col_pct mr' c"
  shows "spec_missing_penalty (missing_pcts mr) \<le> spec_missing_penalty (missing_pcts mr')"
proof -
  let ?K = "set (map fst (get_default (mr_details mr) [])) \<union> set (map fst (get_default (mr_details mr') []))"
  have a: "sum_list (map spec_missing_tier (missing_pcts mr)) = (\<Sum>c\<in>?K. spec_missing_tier (col_pct mr c))"
    by (rule missing_sum_by_column [OF assms(1)]) auto
  have b: "sum_list (map spec_missing_tier (missing_pcts mr')) = (\<Sum>c\<in>?K. spec_missing_tier (col_pct mr' c))"
    by (rule missing_sum_by_column [OF assms(2)]) auto
  have "(\<Sum>c\<in>?K. spec_missing_tier (col_pct mr c)) \<le> (\<Sum>c\<in>?K. spec_missing_tier (col_pct mr' c))"
    by (rule sum_mono) (use assms(3) in \<open>simp add: spec_missing_tier_mono\<close>)
  with a b show ?thesis by (simp add: spec_missing_penalty_def)
qed

lemma spec_missing_penalty_range: "0 \<le> spec_missing_penalty ps \<and> spec_missing_penalty ps \<le> 30"
proof -
  have "0 \<le> sum_list (map spec_missing_tier ps)"
    by (rule sum_list_nonneg) (auto simp: spec_missing_tier_nonneg)
  then show ?thesis by (simp add: spec_missing_penalty_def)
qed

lemma spec_duplicate_penalty_mono: "p \<le> q \<Longrightarrow> spec_duplicate_penalty p \<le> spec_duplicate_penalty q"
  by (simp add: spec_duplicate_penalty_def)

lemma spec_duplicate_penalty_range: "0 \<le> spec_duplicate_penalty p \<and> spec_duplicate_penalty p \<le> 15"
  by (simp add: spec_duplicate_penalty_def)

lemma spec_outlier_penalty_mono: "p \<le> q \<Longrightarrow> spec_outlier_penalty p \<le> spec_outlier_penalty q"
  by (simp add: spec_outlier_penalty_def)

lemma spec_outlier_penalty_range: "0 \<le> spec_outlier_penalty p \<and> spec_outlier_penalty p \<le> 10"
  by (simp add: spec_outlier_penalty_def)

lemma spec_inconsistency_penalty_mono:
  "p \<le> q \<Longrightarrow> spec_inconsistency_penalty p \<le> spec_inconsistency_penalty q"
  by (simp add: spec_inconsistency_penalty_def)

lemma spec_inconsistency_penalty_range:
  "0 \<le> spec_inconsistency_penalty p \<and> spec_inconsistency_penalty p \<le> 15"
  by (simp add: spec_inconsistency_penalty_def)

text \<open>
  Claim C3.  The score does not increase when the missing percentage of any column, the
  duplicate percentage, the total outlier count or the inconsistency-issue count grows
  (the others growing or staying as they are), and it always lies between 0 and 100.
  A column without an entry in the details dictionary has percentage 0, so a column
  that starts to have missing cells is covered.
\<close>

theorem quality_score_monotone_bounded:
  assumes "dict_keys_distinct mr" and "dict_keys_distinct mr'"
    and "\<forall>c. col_pct mr c \<le> col_pct mr' c"
    and "dup_pct_of dr \<le> dup_pct_of dr'"
    and "total_outliers_of orp \<le> total_outliers_of orp'"
    and "inconsistency_issues ir \<le> inconsistency_issues ir'"
  shows "score (calculate_quality_score mr' dr' orp' ir') \<le> score (calculate_quality_score mr dr orp ir)
       \<and> 0 \<le> score (calculate_quality_score mr dr orp ir)
       \<and> score (calculate_quality_score mr dr orp ir) \<le> 100"
proof -
  note m = spec_missing_penalty_mono [OF assms(1,2,3)]
  note d = spec_duplicate_penalty_mono [OF assms(4)]
  note out = spec_outlier_penalty_mono [OF assms(5)]
  note i = spec_inconsistency_penalty_mono [OF assms(6)]
  note r1 = spec_missing_penalty_range [of "missing_pcts mr"]
  note r2 = spec_duplicate_penalty_range [of "dup_pct_of dr"]
  note r3 = spec_outlier_penalty_range [of "total_outliers_of orp"]
  note r4 = spec_inconsistency_penalty_range [of "inconsistency_issues ir"]
  show ?thesis
    unfolding score_unfolded using m d out i r1 r2 r3 r4 by linarith
qed

lemma inconsistency_issues_spec: "inconsistency_issues ir = spec_issue_columns ir"
  by (simp add: inconsistency_issues_def spec_issue_columns_def listed_columns_def get_default_def
      split: option.split)

lemma inconsistency_issues_frame:
  "inconsistency_issues
     (ir\<lparr> iv_mixed_alphanumeric := mixed, iv_rare_categories := rare, iv_inconsistent_formats := formats \<rparr>)
   = inconsistency_issues ir"
  by (simp add: inconsistency_issues_def)

text \<open>
  Claim C2.  Whatever four reports the scorer is given, its score is 100 minus the
  missing-data penalty (10, 5 or 2 per column by the tiers above 20, 5 and 0 percent,
  the sum capped at 30), minus one duplicate tier (15, 8, 3 or 0), minus one outlier
  tier (10 above 100 outliers, 5 above 50), minus one inconsistency tier (15, 8, 4 or 0)
  counted from the strip, case and special-character issue columns only, floored at 0;
  and the grade is the band of that score.  The count is the specification's own,
  \<open>spec_issue_columns\<close>, taken on a report that carries all six dictionaries of
  findings; and whatever the mixed-alphanumeric, rare-category and inconsistent-format
  dictionaries hold, score and grade are the same.
\<close>

theorem quality_score_matches_spec:
  "score (calculate_quality_score mr dr orp ir) =
     spec_score (missing_pcts mr) (dup_pct_of dr) (total_outliers_of orp) (spec_issue_columns ir)
   \<and> grade (calculate_quality_score mr dr orp ir) =
     spec_grade (spec_score (missing_pcts mr) (dup_pct_of dr) (total_outliers_of orp)
                   (spec_issue_columns ir))
   \<and> calculate_quality_score mr dr orp
       (ir\<lparr> iv_mixed_alphanumeric := mixed, iv_rare_categories := rare,
            iv_inconsistent_formats := formats \<rparr>)
     = calculate_quality_score mr dr orp ir"
proof -
  have s: "score (calculate_quality_score mr dr orp ir) =
     spec_score (missing_pcts mr) (dup_pct_of dr) (total_outliers_of orp) (spec_issue_columns ir)"
    using score_eq_spec [of mr dr orp ir] by (simp add: inconsistency_issues_spec)
  have g: "grade (calculate_quality_score mr dr orp ir) =
     spec_grade (score (calculate_quality_score mr dr orp ir))"
    by (rule grade_eq_spec)
  have f: "calculate_quality_score mr dr orp
       (ir\<lparr> iv_mixed_alphanumeric := mixed, iv_rare_categories := rare,
            iv_inconsistent_formats := formats \<rparr>)
     = calculate_quality_score mr dr orp ir"
    unfolding calculate_quality_score_def inconsistency_issues_frame ..
  from s g f show ?thesis by simp
qed

text \<open>
  The specification's count and the scorer on a report with findings of all six kinds:
  three issue columns, tier 8, score 92.
\<close>

lemma quality_score_on_mixed_report:
  "spec_issue_columns ir_mixed = 3 \<and>
   score (calculate_quality_score \<lparr> mr_details = None \<rparr> (dup_pct_view 0) (outlier_total_view 0) ir_mixed)
     = 92"
  by (simp add: spec_issue_columns_def listed_columns_def ir_mixed_def calculate_quality_score_def
      inconsistency_issues_def get_default_def missing_penalty_loop.simps dup_pct_view_def
      outlier_total_view_def Let_def)

lemma col_pct_low_high: "\<forall>c. col_pct mr_low c \<le> col_pct mr_high c"
  by (simp add: col_pct_def mr_low_def mr_high_def get_default_def)

text \<open>Two reports of growing severity satisfy the hypotheses of the monotonicity theorem.\<close>

theorem quality_score_monotone_bounded_witness:
  "score (calculate_quality_score mr_high (dup_pct_view 2)
            (outlier_total_view 60)
            ir_one)
     \<le> score (calculate_quality_score mr_low (dup_pct_view (1/2))
            (outlier_total_view 10)
            ir_clean)
   \<and> 0 \<le> score (calculate_quality_score mr_low (dup_pct_view (1/2))
            (outlier_total_view 10)
            ir_clean)
   \<and> score (calculate_quality_score mr_low (dup_pct_view (1/2))
            (outlier_total_view 10)
            ir_clean) \<le> 100"
proof -
  have k1: "dict_keys_distinct mr_low" by (simp add: dict_keys_distinct_def mr_low_def get_default_def)
  have k2: "dict_keys_distinct mr_high" by (simp add: dict_keys_distinct_def mr_high_def get_default_def)
  have d: "dup_pct_of (dup_pct_view (1/2)) \<le> dup_pct_of (dup_pct_view 2)"
    by (simp add: dup_pct_of_def get_default_def dup_pct_view_def)
  have out: "total_outliers_of (outlier_total_view 10) \<le> total_outliers_of (outlier_total_view 60)"
    by (simp add: total_outliers_of_def get_default_def outlier_total_view_def)
  have i: "inconsistency_issues ir_clean
        \<le> inconsistency_issues ir_one"
    by (simp add: inconsistency_issues_def get_default_def ir_clean_def ir_one_def)
  show ?thesis
    by (rule quality_score_monotone_bounded [OF k1 k2 col_pct_low_high d out i])
qed

text \<open>
  Claim C10.  The four penalties reported in the breakdown never add up to more than 70
  (30 + 15 + 10 + 15); the score is exactly 100 minus their sum, so the floor at 0 never
  binds and the score is at least 30; the grade Critical only occurs for scores from 30
  to 39.
\<close>

theorem quality_score_penalty_bound:
  "missing_data_impact (breakdown (calculate_quality_score mr dr orp ir)) +
   duplicate_impact (breakdown (calculate_quality_score mr dr orp ir)) +
   outlier_impact (breakdown (calculate_quality_score mr dr orp ir)) +
   inconsistency_impact (breakdown (calculate_quality_score mr dr orp ir)) \<le> 70
   \<and> score (calculate_quality_score mr dr orp ir) =
       100 - (missing_data_impact (breakdown (calculate_quality_score mr dr orp ir)) +
              duplicate_impact (breakdown (calculate_quality_score mr dr orp ir)) +
              outlier_impact (breakdown (calculate_quality_score mr dr orp ir)) +
              inconsistency_impact (breakdown (calculate_quality_score mr dr orp ir)))
   \<and> 30 \<le> score (calculate_quality_score mr dr orp ir)
   \<and> (grade (calculate_quality_score mr dr orp ir) = ''Critical'' \<longrightarrow>
        30 \<le> score (calculate_quality_score mr dr orp ir) \<and>
        score (calculate_quality_score mr dr orp ir) \<le> 39)"
proof -
  let ?q = "calculate_quality_score mr dr orp ir"
  have b1: "missing_data_impact (breakdown ?q) = spec_missing_penalty (missing_pcts mr)"
    unfolding calculate_quality_score_def Let_def missing_penalty_eq spec_missing_penalty_def
    by (simp only: quality_score.select_convs score_breakdown.select_convs)
  have b2: "duplicate_impact (breakdown ?q) = spec_duplicate_penalty (dup_pct_of dr)"
    unfolding calculate_quality_score_def Let_def spec_duplicate_penalty_def dup_pct_of_def
    by (simp only: quality_score.select_convs score_breakdown.select_convs)
  have b3: "outlier_impact (breakdown ?q) = spec_outlier_penalty (total_outliers_of orp)"
    unfolding calculate_quality_score_def Let_def spec_outlier_penalty_def total_outliers_of_def
    by (simp only: quality_score.select_convs score_breakdown.select_convs)
  have b4: "inconsistency_impact (breakdown ?q) = spec_inconsistency_penalty (inconsistency_issues ir)"
    unfolding calculate_quality_score_def Let_def spec_inconsistency_penalty_def
    by (simp only: quality_score.select_convs score_breakdown.select_convs)
  note r1 = spec_missing_penalty_range [of "missing_pcts mr"]
  note r2 = spec_duplicate_penalty_range [of "dup_pct_of dr"]
  note r3 = spec_outlier_penalty_range [of "total_outliers_of orp"]
  note r4 = spec_inconsistency_penalty_range [of "inconsistency_issues ir"]
  have s: "score ?q = 100 - (spec_missing_penalty (missing_pcts mr) + spec_duplicate_penalty (dup_pct_of dr)
             + spec_outlier_penalty (total_outliers_of orp)
             + spec_inconsistency_penalty (inconsistency_issues ir))"
    unfolding score_unfolded using r1 r2 r3 r4 by linarith
  have g: "grade ?q = ''Critical'' \<longrightarrow> score ?q \<le> 39"
    unfolding grade_eq_spec spec_grade_def by (simp split: if_splits)
  show ?thesis
    unfolding b1 b2 b3 b4 using s g r1 r2 r3 r4 by auto
qed

lemma worst_score:
  "calculate_quality_score mr_worst (dup_pct_view 6) (outlier_total_view 101) ir_worst
   = \<lparr> score = 30, grade = ''Critical'',
       breakdown = \<lparr> missing_data_impact = 30, duplicate_impact = 15, outlier_impact = 10,
                     inconsistency_impact = 15 \<rparr> \<rparr>"
  by (simp add: calculate_quality_score_def mr_worst_def ir_worst_def get_default_def
      inconsistency_issues_def grade_of_def Let_def dup_pct_view_def outlier_total_view_def)

text \<open>The worst case is reached: every penalty at its ceiling gives score 30, grade Critical.\<close>

theorem quality_score_penalty_bound_witness:
  "grade (calculate_quality_score mr_worst (dup_pct_view 6)
            (outlier_total_view 101) ir_worst) = ''Critical''
   \<and> score (calculate_quality_score mr_worst (dup_pct_view 6)
            (outlier_total_view 101) ir_worst) = 30
   \<and> 30 \<le> score (calculate_quality_score mr_worst (dup_pct_view 6)
            (outlier_total_view 101) ir_worst)
   \<and> score (calculate_quality_score mr_worst (dup_pct_view 6)
            (outlier_total_view 101) ir_worst) \<le> 39"
  using quality_score_penalty_bound [of mr_worst "(dup_pct_view 6)"
      "(outlier_total_view 101)" ir_worst]
  by (simp add: worst_score)

section \<open>Properties of the duplicate analyzer\<close>

lemma length_duplicated_first: "length (duplicated_first seen rs) = length rs"
  by (induction rs arbitrary: seen) simp_all

lemma count_true_le: "count_true bs \<le> length bs"
  by (simp add: count_true_def)

lemma length_duplicated:
  "\<not> frame_empty df \<Longrightarrow> length (duplicated df None k) = length (rows df)"
  by (cases k) (simp_all add: duplicated_def Let_def length_duplicated_first duplicated_all_def)

lemma duplicated_empty: "frame_empty df \<Longrightarrow> duplicated df subs k = []"
  by (simp add: duplicated_def)

lemma count_duplicated_le: "count_true (duplicated df subs k) \<le> length (rows df)"
proof (cases "frame_empty df")
  case True
  then show ?thesis by (simp add: duplicated_empty count_true_def)
next
  case False
  have "length (duplicated df subs k) = length (rows df)"
    using False
    by (cases k; cases subs)
       (simp_all add: duplicated_def Let_def length_duplicated_first duplicated_all_def subset_keys_def)
  with count_true_le [of "duplicated df subs k"] show ?thesis by simp
qed

lemma getitem_mask_duplicated:
  assumes "columns df \<noteq> [] \<or> rows df = []"
  shows "\<exists>d. getitem_mask df (duplicated df None k) = Inr d"
proof (cases "frame_empty df")
  case True
  with assms have "rows df = []" by (auto simp: frame_empty_def)
  with True show ?thesis by (simp add: getitem_mask_def duplicated_empty)
next
  case False
  then show ?thesis by (simp add: getitem_mask_def length_duplicated)
qed

text \<open>
  Claim C9.  For every dataset that has a column (or no row at all) the duplicate
  analyzer returns a report, and in it \<open>unique_rows = total_rows - duplicate_count\<close>,
  \<open>0 \<le> duplicate_count \<le> total_rows\<close>, and \<open>total_rows\<close> is the number of rows.
\<close>

theorem analyze_duplicates_counts:
  assumes "columns df \<noteq> [] \<or> rows df = []"
  shows "\<exists>r. analyze_duplicates df = Inr r \<and>
             unique_rows r = total_rows r - duplicate_count r \<and>
             0 \<le> duplicate_count r \<and> duplicate_count r \<le> total_rows r \<and>
             total_rows r = int (length (rows df))"
proof -
  from getitem_mask_duplicated [OF assms, of KeepFalse]
  obtain d where d: "getitem_mask df (duplicated df None KeepFalse) = Inr d" ..
  have le: "int (count_true (duplicated df None KeepFirst)) \<le> int (length (rows df))"
    using count_duplicated_le [of df None KeepFirst] by simp
  show ?thesis
    unfolding analyze_duplicates_def Let_def d
    using le by simp
qed

text \<open>The analyzer run on four orders, two of them identical.\<close>

theorem analyze_duplicates_counts_witness:
  "\<exists>r. analyze_duplicates orders = Inr r \<and>
        unique_rows r = total_rows r - duplicate_count r \<and>
        0 \<le> duplicate_count r \<and> duplicate_count r \<le> total_rows r \<and>
        total_rows r = int (length (rows orders))"
proof -
  have "columns orders \<noteq> [] \<or> rows orders = []" by (simp add: orders_def)
  then show ?thesis by (rule analyze_duplicates_counts)
qed

text \<open>
  When the analyzer reports the subset finding: some column is not an identifier column,
  and the rows marked with \<^verbatim>\<open>keep=False\<close> on those columns outnumber the rows marked with
  \<^verbatim>\<open>keep='first'\<close> on all columns.
\<close>

lemma analyze_duplicates_subset_finding:
  assumes "analyze_duplicates df = Inr r"
  shows "(subset_duplicates r \<noteq> None) =
         (important_cols_of df \<noteq> [] \<and>
          int (count_true (duplicated df (Some (important_cols_of df)) KeepFalse)) > duplicate_count r)"
  using assms
  by (auto simp: analyze_duplicates_def Let_def split: sum.splits if_splits)

text \<open>
  Claim C5, evaluated on a frame of two identical rows and one column, \<open>a\<close>, which is
  not an identifier column.  Ignoring identifier columns ignores nothing here, and
  counted the same way (\<^verbatim>\<open>keep='first'\<close>) the subset has the one duplicate the full rows
  have.  The analyzer counts the subset with \<^verbatim>\<open>keep=False\<close> (both rows of the pair), finds
  2 > 1 and reports the finding.
\<close>

theorem analyze_duplicates_subset_finding_on_pair:
  "important_cols_of dup_pair = map fst (columns dup_pair) \<and>
   count_true (duplicated dup_pair (Some (important_cols_of dup_pair)) KeepFirst) = 1 \<and>
   analyze_duplicates dup_pair =
     Inr \<lparr> duplicate_count = 1, duplicate_percent = 50, total_rows = 2, unique_rows = 1,
           dup_severity = ''High'',
           subset_duplicates =
             Some \<lparr> columns_checked = [''a''], subset_duplicate_count = 2,
                    subset_note = ''More duplicates found when ignoring ID columns'' \<rparr>,
           dup_suggestions =
             [''High duplicate rate detected. Investigate data collection process.'',
              ''Check if duplicates are legitimate (e.g., repeated measurements) or errors.'',
              ''Found more duplicates when ignoring ID columns. Consider subset-based deduplication.''] \<rparr>"
  by code_simp


section \<open>Properties of the cleaning stage\<close>

subsection \<open>Row counts under outlier handling\<close>

lemma length_col_values: "length (col_values df i) = length (rows df)"
  by (simp add: col_values_def)

lemma rows_set_column:
  "length vals = length (rows df) \<Longrightarrow> length (rows (set_column df i t vals)) = length (rows df)"
  by (simp add: set_column_def)

lemma clip_column_length: "clip_column t bounds cs = Some (t', vals) \<Longrightarrow> length vals = length cs"
  by (auto simp: clip_column_def Let_def split: option.splits if_splits prod.splits)

lemma outlier_step_clip_rows:
  assumes "outlier_step ''clip'' df col i = Some df'"
  shows "length (rows df') = length (rows df)"
proof -
  from assms obtain bounds t' vals
    where c: "clip_column (snd (columns df ! i)) bounds (col_values df i) = Some (t', vals)"
      and d: "df' = set_column df i t' vals"
    by (auto simp: outlier_step_def Let_def split: option.splits prod.splits)
  from clip_column_length [OF c] have "length vals = length (rows df)"
    by (simp add: length_col_values)
  with d show ?thesis by (simp add: rows_set_column)
qed

lemma outlier_step_remove_rows:
  assumes "outlier_step ''remove'' df col i = Some df'"
  shows "length (rows df') \<le> length (rows df)"
  using assms by (auto simp: outlier_step_def Let_def split: option.splits)

lemma outlier_loop_clip_rows: "length (rows (outlier_loop ''clip'' df cols)) = length (rows df)"
proof (induction cols arbitrary: df)
  case Nil
  show ?case by simp
next
  case (Cons col cols)
  show ?case
  proof (cases "index_of col (map fst (columns df))")
    case None
    then show ?thesis by (simp add: Cons.IH)
  next
    case (Some i)
    show ?thesis
    proof (cases "outlier_step ''clip'' df col i")
      case None
      with Some show ?thesis by (simp add: Cons.IH)
    next
      case (Some df')
      with \<open>index_of col (map fst (columns df)) = Some i\<close> outlier_step_clip_rows [OF Some]
      show ?thesis by (simp add: Cons.IH)
    qed
  qed
qed

lemma outlier_loop_remove_rows: "length (rows (outlier_loop ''remove'' df cols)) \<le> length (rows df)"
proof (induction cols arbitrary: df)
  case Nil
  show ?case by simp
next
  case (Cons col cols)
  show ?case
  proof (cases "index_of col (map fst (columns df))")
    case None
    then show ?thesis by (simp add: Cons.IH)
  next
    case (Some i)
    show ?thesis
    proof (cases "outlier_step ''remove'' df col i")
      case None
      with Some show ?thesis by (simp add: Cons.IH)
    next
      case (Some df')
      have "length (rows (outlier_loop ''remove'' df' cols)) \<le> length (rows df')"
        by (rule Cons.IH)
      also have "\<dots> \<le> length (rows df)"
        by (rule outlier_step_remove_rows [OF Some])
      finally show ?thesis
        using Some \<open>index_of col (map fst (columns df)) = Some i\<close> by simp
    qed
  qed
qed

text \<open>
  Claim C7.  For every dataset and every outlier report, \<^verbatim>\<open>handle_outliers\<close> with method
  \<^verbatim>\<open>clip\<close> returns a frame with exactly as many rows as its input, and with method
  \<^verbatim>\<open>remove\<close> a frame with at most as many rows.
\<close>

theorem handle_outliers_row_count:
  "length (rows (handle_outliers df outlier_rep ''clip'')) = length (rows df) \<and>
   length (rows (handle_outliers df outlier_rep ''remove'')) \<le> length (rows df)"
  by (cases outlier_rep)
     (simp_all add: handle_outliers_def outlier_loop_clip_rows outlier_loop_remove_rows)

subsection \<open>Unknown imputation strategies\<close>

lemma impute_column_unknown:
  assumes "strategy \<noteq> ''median''" "strategy \<noteq> ''mean''" "strategy \<noteq> ''zero''"
  shows "impute_column strategy t cs = impute_column ''median'' t cs"
  using assms by (simp add: impute_column_def)

lemma impute_loop_unknown:
  assumes "strategy \<noteq> ''median''" "strategy \<noteq> ''mean''" "strategy \<noteq> ''zero''"
  shows "impute_loop strategy df cols = impute_loop ''median'' df cols"
proof (induction cols arbitrary: df)
  case Nil
  show ?case by simp
next
  case (Cons i cols)
  show ?case
    by (simp only: impute_loop.simps impute_column_unknown [OF assms] Cons.IH)
qed

text \<open>
  Claim C8.  For every dataset and every strategy string other than \<^verbatim>\<open>median\<close>, \<^verbatim>\<open>mean\<close>
  and \<^verbatim>\<open>zero\<close>, \<^verbatim>\<open>impute_missing_values\<close> returns what it returns for \<^verbatim>\<open>median\<close>.  It does
  not raise: every operation that can raise stands inside the \<^verbatim>\<open>try\<close> block, whose
  failure is the \<open>None\<close> of \<open>impute_column\<close>, and the function is total.
\<close>

theorem impute_unknown_strategy_is_median:
  assumes "strategy \<noteq> ''median''" and "strategy \<noteq> ''mean''" and "strategy \<noteq> ''zero''"
  shows "impute_missing_values df strategy = impute_missing_values df ''median''"
  by (simp add: impute_missing_values_def impute_loop_unknown [OF assms])

text \<open>The strategy \<^verbatim>\<open>mode\<close> on a frame with a missing number and a missing text.\<close>

theorem impute_unknown_strategy_is_median_witness:
  "impute_missing_values readings ''mode'' = impute_missing_values readings ''median'' \<and>
   impute_missing_values readings ''median'' =
     \<lparr> columns = [(''temp'', D_float64), (''site'', D_object)],
       rows = [[Num 10, Str ''a''], [Num 11, Str ''a''], [Num 12, Str ''b''],
               [Num 13, Str ''a''], [Num (23 / 2), Str ''b''], [Num 500, Str ''a''],
               [Num 11, Str ''a'']] \<rparr>"
proof -
  have a: "impute_missing_values readings ''mode'' = impute_missing_values readings ''median''"
    by (rule impute_unknown_strategy_is_median) simp_all
  have b: "impute_missing_values readings ''median'' =
     \<lparr> columns = [(''temp'', D_float64), (''site'', D_object)],
       rows = [[Num 10, Str ''a''], [Num 11, Str ''a''], [Num 12, Str ''b''],
               [Num 13, Str ''a''], [Num (23 / 2), Str ''b''], [Num 500, Str ''a''],
               [Num 11, Str ''a'']] \<rparr>"
    by code_simp
  from a b show ?thesis by simp
qed

subsection \<open>Duplicates after cleaning\<close>

lemma keep_first_distinct:
  "distinct (map snd (filter (\<lambda>(d, r). \<not> d) (zip (duplicated_first seen rs) rs))) \<and>
   set (map snd (filter (\<lambda>(d, r). \<not> d) (zip (duplicated_first seen rs) rs))) \<inter> set seen = {}"
proof (induction rs arbitrary: seen)
  case Nil
  show ?case by simp
next
  case (Cons r rs)
  from Cons.IH [of "r # seen"] show ?case by auto
qed

lemma duplicated_first_distinct:
  "distinct rs \<Longrightarrow> set rs \<inter> set seen = {} \<Longrightarrow> count_true (duplicated_first seen rs) = 0"
proof (induction rs arbitrary: seen)
  case Nil
  show ?case by (simp add: count_true_def)
next
  case (Cons r rs)
  from Cons.prems have "count_true (duplicated_first (r # seen) rs) = 0"
    by (intro Cons.IH) auto
  with Cons.prems show ?case by (simp add: count_true_def)
qed

lemma duplicate_count_distinct:
  assumes "distinct (rows df)"
  shows "duplicate_count_of df = 0"
proof (cases "frame_empty df")
  case True
  then show ?thesis by (simp add: duplicate_count_of_def duplicated_empty count_true_def)
next
  case False
  from assms have "count_true (duplicated_first [] (rows df)) = 0"
    by (rule duplicated_first_distinct) simp
  with False show ?thesis by (simp add: duplicate_count_of_def duplicated_def)
qed

lemma drop_duplicates_clean: "duplicate_count_of (drop_duplicates df) = 0"
proof (cases "frame_empty df")
  case True
  then show ?thesis
    by (simp add: drop_duplicates_def duplicate_count_of_def duplicated_empty count_true_def)
next
  case False
  have "distinct (rows (drop_duplicates df))"
    using False keep_first_distinct [of "[]" "rows df"]
    by (simp add: drop_duplicates_def duplicated_def)
  then show ?thesis by (rule duplicate_count_distinct)
qed

text \<open>
  Claim C1, as amended.  Given a duplicate report that carries \<^verbatim>\<open>duplicate_count\<close>, the
  duplicate-handling step with strategy \<^verbatim>\<open>remove\<close> returns a frame without exact
  duplicate rows, and so does the whole cleaning stage when text normalisation is
  switched off and no data-type report, no outlier report and no constant-column removal
  alter the frame afterwards (whatever the imputation strategy and outlier method).
\<close>

theorem clean_dataset_remove_no_duplicates:
  assumes "dv_duplicate_count rep \<noteq> None"
  shows "duplicate_count_of (handle_duplicates df (Some rep) ''remove'') = 0 \<and>
         duplicate_count_of
           (clean_dataset L df None inconsistency_rep None (Some rep) ''remove''
              missing_strategy outlier_method False False) = 0"
proof -
  from assms obtain n where n: "dv_duplicate_count rep = Some n" by auto
  show ?thesis
    by (simp add: clean_dataset_def handle_duplicates_def Let_def n drop_duplicates_clean)
qed

text \<open>Seven readings, one of them repeated, cleaned with the report the analyzer gives.\<close>

theorem clean_dataset_remove_no_duplicates_witness:
  "dv_duplicate_count readings_duplicates \<noteq> None \<and>
   duplicate_count_of readings = 1 \<and>
   duplicate_count_of (handle_duplicates readings (Some readings_duplicates) ''remove'') = 0 \<and>
   duplicate_count_of
     (clean_dataset lib0 readings None (None :: unit option) None (Some readings_duplicates)
        ''remove'' ''median'' ''clip'' False False) = 0"
proof -
  have h: "dv_duplicate_count readings_duplicates \<noteq> None"
    by (simp add: readings_duplicates_def)
  have c: "duplicate_count_of readings = 1" by code_simp
  from h c clean_dataset_remove_no_duplicates [OF h, of readings lib0 "None :: unit option" "''median''" "''clip''"]
  show ?thesis by simp
qed

text \<open>
  Claim C1 as stated fails.  With the analyzer's report and every other option at its
  default (text normalisation on), the two distinct rows \<open>Pune\<close> and \<open>Pune\<close> followed by a
  blank survive the removal of duplicates and are then normalised to the same text.
  With no duplicate report at all (the default), the strategy is not consulted: the rows
  are flagged, and of three equal rows the two flagged ones are duplicates of each other.
\<close>

theorem clean_dataset_remove_counterexample:
  "duplicate_count_of
     (clean_dataset lib0 cities None (None :: unit option) None (Some cities_report)
        ''remove'' ''median'' ''clip'' True False) = 1 \<and>
   duplicate_count_of
     (clean_dataset lib0 ones None (None :: unit option) None None
        ''remove'' ''median'' ''clip'' True False) = 1"
  by code_simp


section \<open>The inconsistency analyzer's issue total\<close>

text \<open>
  What the analyzer reports for every frame with a text column: the total and the
  severity are those of strip, case, special-character, mixed-alphanumeric and
  rare-category findings.
\<close>

lemma analyze_inconsistencies_total:
  assumes "categorical_positions df \<noteq> []"
  shows "summary (analyze_inconsistencies L df) =
     Summary \<lparr> total_categorical_columns = int (length (categorical_positions df)),
               columns_with_issues = int (issue_total (analyze_inconsistencies L df)),
               severity =
                 (if issue_total (analyze_inconsistencies L df) = 0 then ''None''
                  else if issue_total (analyze_inconsistencies L df) \<le> 2 then ''Low''
                  else if issue_total (analyze_inconsistencies L df) \<le> 5 then ''Medium''
                  else ''High'') \<rparr>"
  using assms
  by (simp add: analyze_inconsistencies_def Let_def issue_total_def)

text \<open>
  Claim C4, evaluated on a frame with one text column of eleven distinct grocery names,
  ten of three or four letters and one of thirty-seven.  The analyzer detects the
  length-variance finding for the column, records it under \<^verbatim>\<open>inconsistent_formats\<close> and
  emits its suggestion, but \<^verbatim>\<open>total_issues\<close> (lines 122-128) adds up only five of the six
  dictionaries: the column counts for nothing and the severity is \<^verbatim>\<open>None\<close>, where a total
  over every finding type the analyzer detects is 1 and the severity \<^verbatim>\<open>Low\<close>.
\<close>

theorem analyze_inconsistencies_omits_formats:
  "analyze_inconsistencies lib0 groceries =
     \<lparr> summary = Summary \<lparr> total_categorical_columns = 1, columns_with_issues = 0,
                            severity = ''None'' \<rparr>,
       strip_issues = [], case_issues = [], special_char_issues = [],
       mixed_alphanumeric = [], rare_categories = [],
       inconsistent_formats =
         Some [(''item'', \<lparr> min_length = 3, max_length = 37, mean_length = 673 / 100 \<rparr>)],
       suggestions =
         [(''item'', [''Inconsistent value lengths detected. Standardize format if possible''])] \<rparr>"
  by code_simp


section \<open>Drift of a dataset against its own copy\<close>























subsection \<open>Concrete runs of the drift analyzer\<close>





















end
